theory Spec2Isabelle
  imports Main "HOL-Library.Word" "HOL-Library.Sublist"
begin

section \<open>Go values used by telegram.go\<close>

text \<open>
  A Go string is a sequence of bytes, so it is a \<^typ>\<open>string\<close> here and \<open>len\<close> is
  \<^const>\<open>length\<close>. A Go \<open>int\<close> is a 64-bit two's complement word where the code
  computes with it (\<open>truncateText\<close>); chat and message identifiers are only passed
  around and are plain integers.
\<close>

text \<open>
  The run-time panics of the code that is modelled, and how \<open>%v\<close> prints them (Go adds
  the offending indices to the first).
\<close>

datatype panic = SliceBoundsOutOfRange | SendOnClosedChannel

fun panic_text :: "panic \<Rightarrow> string" where
  "panic_text SliceBoundsOutOfRange = ''runtime error: slice bounds out of range''"
| "panic_text SendOnClosedChannel = ''send on closed channel''"

text \<open>How a goroutine's function ends: it returns, it panics, or it is parked on a channel.\<close>

datatype outcome = Returned | Panicked panic | Blocked

subsection \<open>The strings package\<close>

text \<open>\<open>strings.Split(s, sep)\<close> for a one-byte separator: one more part than separators.\<close>

fun strings_Split :: "string \<Rightarrow> char \<Rightarrow> string list" where
  "strings_Split [] sep = [[]]"
| "strings_Split (c # s) sep =
     (if c = sep then [] # strings_Split s sep
      else (case strings_Split s sep of
              [] \<Rightarrow> [[c]]
            | p # ps \<Rightarrow> (c # p) # ps))"

fun strings_Join :: "string list \<Rightarrow> string \<Rightarrow> string" where
  "strings_Join [] sep = []"
| "strings_Join [a] sep = a"
| "strings_Join (a # b # rest) sep = a @ sep @ strings_Join (b # rest) sep"

definition strings_TrimPrefix :: "string \<Rightarrow> string \<Rightarrow> string" where
  "strings_TrimPrefix s p = (if prefix p s then drop (length p) s else s)"

definition strings_Contains_byte :: "string \<Rightarrow> char \<Rightarrow> bool" where
  "strings_Contains_byte s c = (c \<in> set s)"

text \<open>
  \<open>strings.TrimSpace\<close> removes the white space of Unicode at both ends. In UTF-8 these
  are the six ASCII bytes tab, line feed, vertical tab, form feed, carriage return and
  space, and the encodings of U+0085, U+00A0, U+1680, U+2000 to U+200A, U+2028, U+2029,
  U+202F, U+205F and U+3000.
\<close>

definition asciiSpace :: "char \<Rightarrow> bool" where
  "asciiSpace c = (c = CHR 0x09 \<or> c = CHR 0x0A \<or> c = CHR 0x0B \<or> c = CHR 0x0C
                   \<or> c = CHR 0x0D \<or> c = CHR 0x20)"

definition unicodeSpaces :: "string list" where
  "unicodeSpaces =
     [[CHR 0xC2, CHR 0x85], [CHR 0xC2, CHR 0xA0], [CHR 0xE1, CHR 0x9A, CHR 0x80],
      [CHR 0xE2, CHR 0x80, CHR 0x80], [CHR 0xE2, CHR 0x80, CHR 0x81],
      [CHR 0xE2, CHR 0x80, CHR 0x82], [CHR 0xE2, CHR 0x80, CHR 0x83],
      [CHR 0xE2, CHR 0x80, CHR 0x84], [CHR 0xE2, CHR 0x80, CHR 0x85],
      [CHR 0xE2, CHR 0x80, CHR 0x86], [CHR 0xE2, CHR 0x80, CHR 0x87],
      [CHR 0xE2, CHR 0x80, CHR 0x88], [CHR 0xE2, CHR 0x80, CHR 0x89],
      [CHR 0xE2, CHR 0x80, CHR 0x8A], [CHR 0xE2, CHR 0x80, CHR 0xA8],
      [CHR 0xE2, CHR 0x80, CHR 0xA9], [CHR 0xE2, CHR 0x80, CHR 0xAF],
      [CHR 0xE2, CHR 0x81, CHR 0x9F], [CHR 0xE3, CHR 0x80, CHR 0x80]]"

text \<open>The number of bytes of the white-space rune a string starts with, 0 when there is none.\<close>

definition leadingSpace :: "string \<Rightarrow> nat" where
  "leadingSpace s =
     (case s of
        [] \<Rightarrow> 0
      | c # _ \<Rightarrow>
          if asciiSpace c then 1
          else (case find (\<lambda>p. prefix p s) unicodeSpaces of
                  None \<Rightarrow> 0
                | Some p \<Rightarrow> length p))"

definition trailingSpace :: "string \<Rightarrow> nat" where
  "trailingSpace s =
     (case rev s of
        [] \<Rightarrow> 0
      | c # _ \<Rightarrow>
          if asciiSpace c then 1
          else (case find (\<lambda>p. prefix (rev p) (rev s)) unicodeSpaces of
                  None \<Rightarrow> 0
                | Some p \<Rightarrow> length p))"

text \<open>The loops of \<open>TrimLeftFunc\<close> and \<open>TrimRightFunc\<close>; the fuel is the length of the string.\<close>

fun trimLeft :: "nat \<Rightarrow> string \<Rightarrow> string" where
  "trimLeft 0 s = s"
| "trimLeft (Suc n) s =
     (if leadingSpace s = 0 then s else trimLeft n (drop (leadingSpace s) s))"

fun trimRight :: "nat \<Rightarrow> string \<Rightarrow> string" where
  "trimRight 0 s = s"
| "trimRight (Suc n) s =
     (if trailingSpace s = 0 then s
      else trimRight n (take (length s - trailingSpace s) s))"

definition strings_TrimSpace :: "string \<Rightarrow> string" where
  "strings_TrimSpace s = (let l = trimLeft (length s) s in trimRight (length l) l)"

subsection \<open>Formatting with %d\<close>

definition digit_char :: "nat \<Rightarrow> char" where
  "digit_char d = char_of (48 + d)"

function showNat :: "nat \<Rightarrow> string" where
  "showNat n = (if n < 10 then [digit_char n] else showNat (n div 10) @ [digit_char (n mod 10)])"
  by pat_completeness auto
termination
  by (relation "measure id") auto

definition showInt :: "int \<Rightarrow> string" where
  "showInt i = (if i < 0 then ''-'' @ showNat (nat (- i)) else showNat (nat i))"

section \<open>truncateText\<close>

text \<open>
  \<open>text[:hi]\<close> panics unless \<open>0 \<le> hi \<le> len(text)\<close>; \<open>hi\<close> is the 64-bit value of
  \<open>maxLength - 3\<close>, which wraps around like every Go \<open>int\<close>.
\<close>

definition slice_to :: "string \<Rightarrow> 64 word \<Rightarrow> panic + string" where
  "slice_to s hi =
     (if sint hi < 0 \<or> int (length s) < sint hi then Inl SliceBoundsOutOfRange
      else Inr (take (nat (sint hi)) s))"

definition truncateText :: "string \<Rightarrow> 64 word \<Rightarrow> panic + string" where
  "truncateText text maxLength =
     (if int (length text) \<le> sint maxLength then Inr text
      else (case slice_to text (maxLength - 3) of
              Inl p \<Rightarrow> Inl p
            | Inr head \<Rightarrow> Inr (head @ ''...'')))"

section \<open>Message texts\<close>

text \<open>The code points outside ASCII of the message texts, in UTF-8.\<close>

definition U_1F194 :: string where \<comment> \<open>squared id\<close>
  "U_1F194 = [CHR 0xF0, CHR 0x9F, CHR 0x86, CHR 0x94]"

definition U_1F3AF :: string where \<comment> \<open>direct hit\<close>
  "U_1F3AF = [CHR 0xF0, CHR 0x9F, CHR 0x8E, CHR 0xAF]"

definition U_1F3E0 :: string where \<comment> \<open>house building\<close>
  "U_1F3E0 = [CHR 0xF0, CHR 0x9F, CHR 0x8F, CHR 0xA0]"

definition U_1F464 :: string where \<comment> \<open>bust in silhouette\<close>
  "U_1F464 = [CHR 0xF0, CHR 0x9F, CHR 0x91, CHR 0xA4]"

definition U_1F465 :: string where \<comment> \<open>busts in silhouette\<close>
  "U_1F465 = [CHR 0xF0, CHR 0x9F, CHR 0x91, CHR 0xA5]"

definition U_1F4A1 :: string where \<comment> \<open>electric light bulb\<close>
  "U_1F4A1 = [CHR 0xF0, CHR 0x9F, CHR 0x92, CHR 0xA1]"

definition U_1F4BE :: string where \<comment> \<open>floppy disk\<close>
  "U_1F4BE = [CHR 0xF0, CHR 0x9F, CHR 0x92, CHR 0xBE]"

definition U_1F4C1 :: string where \<comment> \<open>file folder\<close>
  "U_1F4C1 = [CHR 0xF0, CHR 0x9F, CHR 0x93, CHR 0x81]"

definition U_1F4C4 :: string where \<comment> \<open>page facing up\<close>
  "U_1F4C4 = [CHR 0xF0, CHR 0x9F, CHR 0x93, CHR 0x84]"

definition U_1F4C8 :: string where \<comment> \<open>chart with upwards trend\<close>
  "U_1F4C8 = [CHR 0xF0, CHR 0x9F, CHR 0x93, CHR 0x88]"

definition U_1F4CA :: string where \<comment> \<open>bar chart\<close>
  "U_1F4CA = [CHR 0xF0, CHR 0x9F, CHR 0x93, CHR 0x8A]"

definition U_1F4CB :: string where \<comment> \<open>clipboard\<close>
  "U_1F4CB = [CHR 0xF0, CHR 0x9F, CHR 0x93, CHR 0x8B]"

definition U_1F4DD :: string where \<comment> \<open>memo\<close>
  "U_1F4DD = [CHR 0xF0, CHR 0x9F, CHR 0x93, CHR 0x9D]"

definition U_1F4ED :: string where \<comment> \<open>open mailbox with lowered flag\<close>
  "U_1F4ED = [CHR 0xF0, CHR 0x9F, CHR 0x93, CHR 0xAD]"

definition U_1F504 :: string where \<comment> \<open>anticlockwise downwards and upwards open circle arrows\<close>
  "U_1F504 = [CHR 0xF0, CHR 0x9F, CHR 0x94, CHR 0x84]"

definition U_1F50D :: string where \<comment> \<open>left-pointing magnifying glass\<close>
  "U_1F50D = [CHR 0xF0, CHR 0x9F, CHR 0x94, CHR 0x8D]"

definition U_1F514 :: string where \<comment> \<open>bell\<close>
  "U_1F514 = [CHR 0xF0, CHR 0x9F, CHR 0x94, CHR 0x94]"

definition U_1F525 :: string where \<comment> \<open>fire\<close>
  "U_1F525 = [CHR 0xF0, CHR 0x9F, CHR 0x94, CHR 0xA5]"

definition U_1F680 :: string where \<comment> \<open>rocket\<close>
  "U_1F680 = [CHR 0xF0, CHR 0x9F, CHR 0x9A, CHR 0x80]"

definition U_1F6A8 :: string where \<comment> \<open>police cars revolving light\<close>
  "U_1F6A8 = [CHR 0xF0, CHR 0x9F, CHR 0x9A, CHR 0xA8]"

definition U_1F916 :: string where \<comment> \<open>robot face\<close>
  "U_1F916 = [CHR 0xF0, CHR 0x9F, CHR 0xA4, CHR 0x96]"

definition U_2022 :: string where \<comment> \<open>bullet\<close>
  "U_2022 = [CHR 0xE2, CHR 0x80, CHR 0xA2]"

definition U_2139 :: string where \<comment> \<open>information source\<close>
  "U_2139 = [CHR 0xE2, CHR 0x84, CHR 0xB9]"

definition U_21B3 :: string where \<comment> \<open>downwards arrow with tip rightwards\<close>
  "U_21B3 = [CHR 0xE2, CHR 0x86, CHR 0xB3]"

definition U_23ED :: string where \<comment> \<open>black right-pointing double triangle with vertical bar\<close>
  "U_23ED = [CHR 0xE2, CHR 0x8F, CHR 0xAD]"

definition U_23F1 :: string where \<comment> \<open>stopwatch\<close>
  "U_23F1 = [CHR 0xE2, CHR 0x8F, CHR 0xB1]"

definition U_23F3 :: string where \<comment> \<open>hourglass with flowing sand\<close>
  "U_23F3 = [CHR 0xE2, CHR 0x8F, CHR 0xB3]"

definition U_2699 :: string where \<comment> \<open>gear\<close>
  "U_2699 = [CHR 0xE2, CHR 0x9A, CHR 0x99]"

definition U_26A0 :: string where \<comment> \<open>warning sign\<close>
  "U_26A0 = [CHR 0xE2, CHR 0x9A, CHR 0xA0]"

definition U_2705 :: string where \<comment> \<open>white heavy check mark\<close>
  "U_2705 = [CHR 0xE2, CHR 0x9C, CHR 0x85]"

definition U_274C :: string where \<comment> \<open>cross mark\<close>
  "U_274C = [CHR 0xE2, CHR 0x9D, CHR 0x8C]"

definition U_2753 :: string where \<comment> \<open>black question mark ornament\<close>
  "U_2753 = [CHR 0xE2, CHR 0x9D, CHR 0x93]"

definition U_FE0F :: string where \<comment> \<open>variation selector-16\<close>
  "U_FE0F = [CHR 0xEF, CHR 0xB8, CHR 0x8F]"

text \<open>The text of \<open>helpMessage\<close> in \<open>handleHelpCommand\<close>, cut in three at its example for the history command, and at its \<open>%d\<close>.\<close>

definition helpMessage_head :: "string" where
  "helpMessage_head =
     U_1F916 @ '' <b>FUD Detection Bot - Available Commands</b>\<newline>\<newline>'' @
     U_1F50D @ '' <b>Search & Analysis Commands:</b>\<newline>'' @ U_2022 @
     '' <code>/search [query]</code> - Search users by username/name\<newline>  Example: /search john or /search (shows top 10 active users)\<newline>\<newline>'' @
     U_2022 @
     '' <code>/analyze &lt;username&gt;</code> - Run manual FUD analysis\<newline>  Example: /analyze suspicious_user\<newline>\<newline>'' @
     U_1F4CA @ '' <b>User Investigation Commands:</b>\<newline>'' @ U_2022 @
     '' <code>/history_&lt;username&gt;</code> - View recent messages (20 latest)\<newline>  Example: ''"

definition helpMessage_tail :: "string" where
  "helpMessage_tail =
     ''\<newline>\<newline>'' @ U_2022 @
     '' <code>/ticker_history_&lt;username&gt;</code> - View ticker-related messages\<newline>  Example: /ticker_history_john_doe\<newline>\<newline>'' @
     U_2022 @
     '' <code>/export_&lt;username&gt;</code> - Export full message history as file\<newline>  Example: /export_john_doe\<newline>\<newline>'' @
     U_2022 @
     '' <code>/detail_&lt;id&gt;</code> - View detailed FUD analysis\<newline>  (ID provided in alert notifications)\<newline>\<newline>'' @
     U_1F4C1 @ '' <b>Data Management Commands:</b>\<newline>'' @ U_2022 @
     '' <code>/import &lt;csv_file&gt;</code> - Import tweets from CSV file\<newline>  Example: /import community_tweets.csv\<newline>\<newline>'' @
     U_1F514 @ '' <b>Notification Management:</b>\<newline>'' @ U_2022 @
     '' <code>/notify</code> - Show notification users list\<newline>'' @ U_2022 @
     '' <code>/notify &lt;username&gt;</code> - Add user to notification list\<newline>  Example: /notify suspicious_user\<newline>\<newline>'' @
     U_1F4CA @ '' <b>Analysis Management:</b>\<newline>'' @ U_2022 @
     '' <code>/fudlist</code> - Show all detected FUD users\<newline>'' @ U_2022 @
     '' <code>/tasks</code> - Show running analysis tasks\<newline>'' @ U_2022 @
     '' <code>/batch_analyze &lt;user1,user2,user3&gt;</code> - Analyze multiple users\<newline>'' @
     U_2022 @
     '' <code>/top20_analyze</code> - Analyze top 20 most active users (admin only)\<newline>\<newline>'' @
     U_2753 @ '' <b>Help Commands:</b>\<newline>'' @ U_2022 @
     '' <code>/help</code> or <code>/start</code> - Show this help message\<newline>\<newline>'' @
     U_1F4A1 @ '' <b>Usage Tips:</b>\<newline>'' @ U_2022 @
     '' Commands with underscore (_) need exact format\<newline>'' @ U_2022 @
     '' Commands with space accept parameters\<newline>'' @ U_2022 @
     '' All commands are case-sensitive\<newline>'' @ U_2022 @
     '' Bot responds to FUD alerts automatically\<newline>\<newline>'' @ U_1F514 @
     '' <b>Alert Types:</b>\<newline>'' @ U_2022 @ '' '' @ U_1F6A8 @ U_1F525 @
     '' Critical - Immediate action required\<newline>'' @ U_2022 @ '' '' @ U_1F6A8 @
     '' High - Monitor closely  \<newline>'' @ U_2022 @ '' '' @ U_26A0 @ U_FE0F @
     '' Medium - Standard monitoring\<newline>'' @ U_2022 @ '' '' @ U_2139 @ U_FE0F @
     '' Low - Log and watch\<newline>\<newline>'' @ U_1F464 @
     '' <b>Your Chat ID:</b> <code>''"

definition helpMessage :: "int \<Rightarrow> string" where
  "helpMessage chatID =
     helpMessage_head @ ''/history_john_doe'' @ helpMessage_tail @ showInt chatID @
     ''</code>''"

text \<open>The replies of \<open>handleHistoryCommand\<close>.\<close>

definition history_invalid_format :: "string" where
  "history_invalid_format =
     U_274C @ '' Invalid command format. Use /history_<username>''"

definition history_error :: "string \<Rightarrow> string \<Rightarrow> string" where
  "history_error username err =
     U_274C @ '' Error retrieving messages for @'' @ username @ '': '' @ err"

definition history_empty :: "string \<Rightarrow> string" where
  "history_empty username =
     U_1F4ED @ '' No messages found for @'' @ username"

definition history_header :: "string \<Rightarrow> string" where
  "history_header username =
     U_1F4DD @ '' <b>Message History for @'' @ username @ ''</b> (Last 20)\<newline>\<newline>''"

definition history_footer :: "string \<Rightarrow> string" where
  "history_footer username =
     U_1F4C4 @ '' For full message history: /export_'' @ username"

definition history_entry :: "nat \<Rightarrow> string \<Rightarrow> string \<Rightarrow> bool \<Rightarrow> string \<Rightarrow> string" where
  "history_entry i created shown isReply tweetID =
     ''<b>'' @ showNat (i + 1) @ ''.</b> '' @ created @ ''\<newline>'' @
     U_1F4DD @ '' <i>'' @ shown @ ''</i>\<newline>'' @
     (if isReply then U_21B3 @ '' <i>Reply to tweet</i>\<newline>'' else []) @
     U_1F194 @ '' <code>'' @ tweetID @ ''</code>\<newline>\<newline>''"

text \<open>The replies of \<open>handleBatchAnalyzeCommand\<close>.\<close>

definition batch_usage :: "string" where
  "batch_usage =
     U_274C @
     '' Invalid command format. Use /batch_analyze <user1,user2,user3>\<newline>\<newline>'' @
     U_1F4DD @ '' <b>Examples:</b>\<newline>'' @ U_2022 @
     '' <code>/batch_analyze john,mary,bob</code>\<newline>'' @ U_2022 @
     '' <code>/batch_analyze user1, user2, user3</code>\<newline>\<newline>'' @ U_1F4A1 @
     '' Separate usernames with commas''"

definition batch_no_valid :: "string" where
  "batch_no_valid =
     U_274C @ '' No valid usernames provided. Please check your input format.''"

definition batch_too_many :: "nat \<Rightarrow> string" where
  "batch_too_many n =
     U_274C @ '' Too many users requested ('' @ showNat n @
     ''). Maximum limit is 20 users per batch.''"

fun numbered_usernames :: "nat \<Rightarrow> string list \<Rightarrow> string" where
  "numbered_usernames i [] = []"
| "numbered_usernames i (u # us) =
     showNat (i + 1) @ ''. @'' @ u @ ''\<newline>'' @ numbered_usernames (i + 1) us"

fun bulleted_usernames :: "string list \<Rightarrow> string" where
  "bulleted_usernames [] = []"
| "bulleted_usernames (u # us) = U_2022 @ '' '' @ u @ ''\<newline>'' @ bulleted_usernames us"

definition batch_confirmation :: "string list \<Rightarrow> string list \<Rightarrow> string" where
  "batch_confirmation validUsernames invalidUsernames =
     U_1F504 @ '' <b>Starting Batch Analysis</b>\<newline>\<newline>'' @ U_1F4CA @
     '' <b>Users to analyze ('' @
     showNat (length validUsernames) @ ''):</b>\<newline>'' @
     numbered_usernames 0 validUsernames @
     (if length invalidUsernames > 0
      then ''\<newline>'' @ U_26A0 @ U_FE0F @ '' <b>Skipped invalid usernames ('' @
           showNat (length invalidUsernames) @ ''):</b>\<newline>'' @
           bulleted_usernames invalidUsernames
      else []) @
     ''\<newline>'' @ U_23F3 @ '' Analysis will start shortly...\<newline>'' @ U_1F4A1 @
     '' Results will be sent as notifications to this chat only''"

definition batch_summary :: "nat \<Rightarrow> nat \<Rightarrow> nat \<Rightarrow> string" where
  "batch_summary analysisCount skippedCount totalUsers =
     U_1F680 @ '' <b>Batch Analysis Started</b>\<newline>\<newline>'' @ U_1F4CA @
     '' <b>Statistics:</b>\<newline>'' @ U_2022 @ '' '' @ U_2705 @ '' Started: '' @
     showNat analysisCount @ '' analyses\<newline>'' @ U_2022 @ '' '' @ U_23ED @ U_FE0F @ '' Skipped: '' @
     showNat skippedCount @ '' (cached)\<newline>'' @ U_2022 @ '' '' @ U_1F4CB @ '' Total: '' @
     showNat totalUsers @
     '' users\<newline>\<newline>'' @ U_1F514 @
     '' Results will be sent to this chat as they complete\<newline>'' @ U_1F50D @
     '' Use /tasks to monitor progress''"

section \<open>The store's records and the work item\<close>

text \<open>
  \<open>AnalysisTaskModel\<close>, \<open>UserModel\<close>, \<open>TweetModel\<close>, \<open>SecondStepClaudeResponse\<close> and
  \<open>twitterapi.NewMessage\<close> are declared in other files of the repository; the fields
  are those that telegram.go reads and writes. A field \<open>X\<close> of a struct is \<open>task_X\<close>,
  \<open>user_X\<close>, \<open>tweet_X\<close>, \<open>resp_X\<close> or \<open>msg_X\<close>. Times are nanoseconds; a
  \<open>float64\<close> is its 64 bits, and only its rendering by \<open>Sprintf\<close> is used.
\<close>

datatype analysis_status =
  ANALYSIS_STATUS_PENDING | ANALYSIS_STATUS_RUNNING
| ANALYSIS_STATUS_COMPLETED | ANALYSIS_STATUS_FAILED

datatype analysis_step =
  ANALYSIS_STEP_INIT | ANALYSIS_STEP_USER_LOOKUP | ANALYSIS_STEP_TICKER_SEARCH
| ANALYSIS_STEP_FOLLOWERS | ANALYSIS_STEP_FOLLOWINGS | ANALYSIS_STEP_COMMUNITY_ACTIVITY
| ANALYSIS_STEP_CLAUDE_ANALYSIS | ANALYSIS_STEP_SAVING_RESULTS

record AnalysisTaskModel =
  task_ID :: string
  task_Username :: string
  task_UserID :: string
  task_Status :: analysis_status
  task_CurrentStep :: analysis_step
  task_ProgressText :: string
  task_ErrorMessage :: string
  task_TelegramChatID :: int
  task_MessageID :: int
  task_StartedAt :: int

record UserModel =
  user_ID :: string
  user_Username :: string
  user_Name :: string

record TweetModel =
  tweet_ID :: string
  tweet_InReplyToID :: string
  tweet_UserID :: string
  tweet_Text :: string
  tweet_CreatedAt :: int

record SecondStepClaudeResponse =
  resp_IsFUDUser :: bool
  resp_FUDType :: string
  resp_UserRiskLevel :: string
  resp_FUDProbability :: "64 word"
  resp_UserSummary :: string

record Author =
  author_UserName :: string
  author_Name :: string
  author_ID :: string

record TweetRef =
  ref_ID :: string
  ref_Author :: string
  ref_Text :: string

record NewMessage =
  msg_TweetID :: string
  msg_ReplyTweetID :: string
  msg_Author :: Author
  msg_Text :: string
  msg_CreatedAt :: string
  msg_ParentTweet :: TweetRef
  msg_GrandParentTweet :: TweetRef
  msg_IsManualAnalysis :: bool
  msg_ForceNotification :: bool
  msg_TaskID :: string
  msg_TelegramChatID :: int

section \<open>The service and its collaborators\<close>

text \<open>
  Everything a handler or a task can read or change. \<open>tasks\<close> is the task table of the
  store; \<open>users\<close>, \<open>analysisTweet\<close>, \<open>userMessages\<close>, \<open>validCachedAnalysis\<close> and
  \<open>cachedAnalysis\<close> are the answers of the store's queries (\<open>None\<close> and \<open>Inl\<close> are a
  non-nil error); \<open>createRejected\<close> tells which inserts the store refuses.
  \<open>analysisChannel\<close> is the content of the buffered channel, oldest first.
  \<open>randomIDs\<close> and \<open>idsDrawn\<close> stand for \<open>crypto/rand\<close>. The renderings of times and of
  floating-point numbers are parameters: \<open>formatTime layout t\<close> is \<open>t.Format(layout)\<close>,
  \<open>sprintf_seconds d\<close> and \<open>sprintf_minutes d\<close> are \<open>"%.0fs"\<close> of \<open>d.Seconds()\<close> and
  \<open>"%.1fm"\<close> of \<open>d.Minutes()\<close>, and \<open>sprintf_percent p\<close> is \<open>"%.0f"\<close> of \<open>p*100\<close>.
\<close>

record world =
  tasks :: "string \<rightharpoonup> AnalysisTaskModel"
  users :: "string \<rightharpoonup> UserModel"
  analysisTweet :: "string \<rightharpoonup> TweetModel"
  userMessages :: "string \<Rightarrow> nat \<Rightarrow> string + TweetModel list"
  validCachedAnalysis :: "string \<Rightarrow> bool"
  cachedAnalysis :: "string \<rightharpoonup> SecondStepClaudeResponse"
  createRejected :: "AnalysisTaskModel \<Rightarrow> bool"
  analysisChannel :: "NewMessage list"
  channelCapacity :: nat
  channelClosed :: bool
  randomIDs :: "nat \<Rightarrow> string"
  idsDrawn :: nat
  clock :: int
  formatTime :: "string \<Rightarrow> int \<Rightarrow> string"
  sprintf_seconds :: "int \<Rightarrow> string"
  sprintf_minutes :: "int \<Rightarrow> string"
  sprintf_percent :: "64 word \<Rightarrow> string"

text \<open>What a handler or a task does to the outside, in order.\<close>

datatype goroutine =
  Run_processAnalysisTask string
| Run_monitorAnalysisProgress string
| Run_processBatchAnalysisTask string int
| Run_sendCachedBatchNotification string string SecondStepClaudeResponse int

datatype effect =
  SendMessage int string
| EditMessage int int string
| Query_GetUserMessagesByUsername string nat
| Go goroutine
| Sleep_ms nat

subsection \<open>The store\<close>

text \<open>
  Modelled from the spec: the methods of \<open>DatabaseService\<close>, which is not in telegram.go.
  The spec's Task Store is \<open>create(task)\<close>, \<open>get(id)\<close>, \<open>update(task)\<close>,
  \<open>updateProgress(id, step, text)\<close>, \<open>setError(id, message)\<close>,
  \<open>hasFreshCachedResult(userID)\<close>, \<open>getCachedResult(userID)\<close>; a task advanced by
  \<open>updateProgress\<close> is \<open>running\<close>, a task given an error is \<open>failed\<close>. A write to a
  record that exists succeeds; telegram.go ignores what the writes return.
\<close>

definition GetAnalysisTask :: "world \<Rightarrow> string \<Rightarrow> AnalysisTaskModel option" where
  "GetAnalysisTask w taskID = tasks w taskID"

definition UpdateAnalysisTaskProgress ::
  "world \<Rightarrow> string \<Rightarrow> analysis_step \<Rightarrow> string \<Rightarrow> world" where
  "UpdateAnalysisTaskProgress w taskID step progressText =
     (case tasks w taskID of
        None \<Rightarrow> w
      | Some t \<Rightarrow>
          w\<lparr>tasks := (tasks w)(taskID \<mapsto>
               t\<lparr>task_Status := ANALYSIS_STATUS_RUNNING, task_CurrentStep := step,
                 task_ProgressText := progressText\<rparr>)\<rparr>)"

definition SetAnalysisTaskError :: "world \<Rightarrow> string \<Rightarrow> string \<Rightarrow> world" where
  "SetAnalysisTaskError w taskID errorMessage =
     (case tasks w taskID of
        None \<Rightarrow> w
      | Some t \<Rightarrow>
          w\<lparr>tasks := (tasks w)(taskID \<mapsto>
               t\<lparr>task_Status := ANALYSIS_STATUS_FAILED,
                 task_ErrorMessage := errorMessage\<rparr>)\<rparr>)"

definition UpdateAnalysisTask :: "world \<Rightarrow> AnalysisTaskModel \<Rightarrow> world" where
  "UpdateAnalysisTask w task = w\<lparr>tasks := (tasks w)(task_ID task \<mapsto> task)\<rparr>"

definition CreateAnalysisTask :: "world \<Rightarrow> AnalysisTaskModel \<Rightarrow> world option" where
  "CreateAnalysisTask w task =
     (if createRejected w task then None
      else Some (w\<lparr>tasks := (tasks w)(task_ID task \<mapsto> task)\<rparr>))"

definition GetUserByUsername :: "world \<Rightarrow> string \<Rightarrow> UserModel option" where
  "GetUserByUsername w username = users w username"

definition GetUserTweetForAnalysis :: "world \<Rightarrow> string \<Rightarrow> TweetModel option" where
  "GetUserTweetForAnalysis w username = analysisTweet w username"

definition GetUserMessagesByUsername ::
  "world \<Rightarrow> string \<Rightarrow> nat \<Rightarrow> string + TweetModel list" where
  "GetUserMessagesByUsername w username limit = userMessages w username limit"

definition HasValidCachedAnalysis :: "world \<Rightarrow> string \<Rightarrow> bool" where
  "HasValidCachedAnalysis w userID = validCachedAnalysis w userID"

definition GetCachedAnalysis :: "world \<Rightarrow> string \<Rightarrow> SecondStepClaudeResponse option" where
  "GetCachedAnalysis w userID = cachedAnalysis w userID"

subsection \<open>generateNotificationID\<close>

definition generateNotificationID :: "world \<Rightarrow> string \<times> world" where
  "generateNotificationID w = (randomIDs w (idsDrawn w), w\<lparr>idsDrawn := Suc (idsDrawn w)\<rparr>)"

section \<open>handleHistoryCommand and handleHelpCommand\<close>

fun history_entries :: "world \<Rightarrow> nat \<Rightarrow> TweetModel list \<Rightarrow> panic + string" where
  "history_entries w i [] = Inr []"
| "history_entries w i (tweet # tweets) =
     (case truncateText (tweet_Text tweet) 200 of
        Inl p \<Rightarrow> Inl p
      | Inr shown \<Rightarrow>
          (case history_entries w (i + 1) tweets of
             Inl p \<Rightarrow> Inl p
           | Inr rest \<Rightarrow>
               Inr (history_entry i (formatTime w ''2006-01-02 15:04'' (tweet_CreatedAt tweet))
                      shown (tweet_InReplyToID tweet \<noteq> []) (tweet_ID tweet) @ rest)))"

definition handleHistoryCommand :: "world \<Rightarrow> int \<Rightarrow> string \<Rightarrow> outcome \<times> effect list" where
  "handleHistoryCommand w chatID command =
     (let parts = strings_Split command CHR ''_'' in
      if length parts \<noteq> 2 then (Returned, [SendMessage chatID history_invalid_format])
      else
        let username = parts ! 1 in
        (case GetUserMessagesByUsername w username 20 of
           Inl err \<Rightarrow>
             (Returned, [Query_GetUserMessagesByUsername username 20,
                         SendMessage chatID (history_error username err)])
         | Inr tweets \<Rightarrow>
             if length tweets = 0
             then (Returned, [Query_GetUserMessagesByUsername username 20,
                              SendMessage chatID (history_empty username)])
             else (case history_entries w 0 tweets of
                     Inl p \<Rightarrow> (Panicked p, [Query_GetUserMessagesByUsername username 20])
                   | Inr entries \<Rightarrow>
                       (Returned, [Query_GetUserMessagesByUsername username 20,
                                   SendMessage chatID
                                     (history_header username @ entries @
                                      history_footer username)]))))"

definition handleHelpCommand :: "int \<Rightarrow> effect list" where
  "handleHelpCommand chatID = [SendMessage chatID (helpMessage chatID)]"

section \<open>The task runners\<close>

text \<open>
  A send on a closed channel panics, inside a \<open>select\<close> too. A send on an open channel
  goes through when the buffer has room; otherwise a plain send parks the goroutine and
  a \<open>select\<close> with a \<open>default\<close> case takes the default.
\<close>

definition channel_has_room :: "world \<Rightarrow> bool" where
  "channel_has_room w = (length (analysisChannel w) < channelCapacity w)"

definition channel_push :: "world \<Rightarrow> NewMessage \<Rightarrow> world" where
  "channel_push w m = w\<lparr>analysisChannel := analysisChannel w @ [m]\<rparr>"

definition no_tweet :: TweetRef where
  "no_tweet = \<lparr>ref_ID = [], ref_Author = [], ref_Text = []\<rparr>"

definition manual_placeholder_message :: "world \<Rightarrow> string \<Rightarrow> string \<Rightarrow> string \<Rightarrow> NewMessage" where
  "manual_placeholder_message w taskID username userID =
     \<lparr>msg_TweetID = ''manual_analysis_'' @ username,
      msg_ReplyTweetID = [],
      msg_Author = \<lparr>author_UserName = username, author_Name = username, author_ID = userID\<rparr>,
      msg_Text = ''Manual analysis request - no recent tweets found'',
      msg_CreatedAt = formatTime w ''2006-01-02T15:04:05Z07:00'' (clock w),
      msg_ParentTweet = \<lparr>ref_ID = ''placeholder_parent'', ref_Author = ''system'',
                         ref_Text = ''No parent tweet available - manual analysis''\<rparr>,
      msg_GrandParentTweet = no_tweet,
      msg_IsManualAnalysis = True,
      msg_ForceNotification = True,
      msg_TaskID = taskID,
      msg_TelegramChatID = 0\<rparr>"

definition manual_tweet_message :: "world \<Rightarrow> string \<Rightarrow> string \<Rightarrow> TweetModel \<Rightarrow> NewMessage" where
  "manual_tweet_message w taskID username tweet =
     \<lparr>msg_TweetID = tweet_ID tweet,
      msg_ReplyTweetID = tweet_InReplyToID tweet,
      msg_Author = \<lparr>author_UserName = username, author_Name = username,
                    author_ID = tweet_UserID tweet\<rparr>,
      msg_Text = tweet_Text tweet,
      msg_CreatedAt = formatTime w ''2006-01-02T15:04:05Z07:00'' (tweet_CreatedAt tweet),
      msg_ParentTweet = \<lparr>ref_ID = ''manual_parent'', ref_Author = ''system'',
                         ref_Text = ''Manual analysis - limited context available''\<rparr>,
      msg_GrandParentTweet = no_tweet,
      msg_IsManualAnalysis = True,
      msg_ForceNotification = True,
      msg_TaskID = taskID,
      msg_TelegramChatID = 0\<rparr>"

text \<open>
  Step 1 of both runners after the progress update: the user's ID, or the placeholder
  when the store does not know the username; a user that is found is written to the
  task's record.
\<close>

definition user_lookup :: "world \<Rightarrow> AnalysisTaskModel \<Rightarrow> string \<Rightarrow> string \<times> world" where
  "user_lookup w task username =
     (case GetUserByUsername w username of
        None \<Rightarrow> (''unknown_'' @ username, w)
      | Some user \<Rightarrow>
          (user_ID user, UpdateAnalysisTask w (task\<lparr>task_UserID := user_ID user\<rparr>)))"

definition processAnalysisTask_body :: "world \<Rightarrow> string \<Rightarrow> outcome \<times> world" where
  "processAnalysisTask_body w taskID =
     (case GetAnalysisTask w taskID of
        None \<Rightarrow> (Returned, w)
      | Some task \<Rightarrow>
          let username = task_Username task;
              w1 = UpdateAnalysisTaskProgress w taskID ANALYSIS_STEP_USER_LOOKUP
                     ''Looking up user information...'';
              (userID, w2) = user_lookup w1 task username;
              w3 = UpdateAnalysisTaskProgress w2 taskID ANALYSIS_STEP_TICKER_SEARCH
                     ''Searching for user's ticker mentions...'';
              newMessage =
                (case GetUserTweetForAnalysis w3 username of
                   None \<Rightarrow> manual_placeholder_message w3 taskID username userID
                 | Some tweet \<Rightarrow> manual_tweet_message w3 taskID username tweet);
              w4 = UpdateAnalysisTaskProgress w3 taskID ANALYSIS_STEP_CLAUDE_ANALYSIS
                     ''Sending for FUD analysis...''
          in if channelClosed w4 then (Panicked SendOnClosedChannel, w4)
             else if channel_has_room w4
             then (Returned,
                   UpdateAnalysisTaskProgress (channel_push w4 newMessage) taskID
                     ANALYSIS_STEP_CLAUDE_ANALYSIS ''Processing with neural network...'')
             else (Returned,
                   SetAnalysisTaskError w4 taskID
                     ''Analysis channel is full, please try again later''))"

text \<open>
  The deferred function of both runners: a panic of the body is recovered, the task is
  given the error \<open>"Internal error: %v"\<close> of the recovered value, and the runner returns.
\<close>

definition recover_task :: "string \<Rightarrow> outcome \<times> world \<Rightarrow> outcome \<times> world" where
  "recover_task taskID r =
     (case r of
        (Panicked p, w) \<Rightarrow>
          (Returned, SetAnalysisTaskError w taskID (''Internal error: '' @ panic_text p))
      | (out, w) \<Rightarrow> (out, w))"

definition processAnalysisTask :: "world \<Rightarrow> string \<Rightarrow> outcome \<times> world" where
  "processAnalysisTask w taskID = recover_task taskID (processAnalysisTask_body w taskID)"

definition batch_placeholder_message ::
  "world \<Rightarrow> string \<Rightarrow> int \<Rightarrow> string \<Rightarrow> string \<Rightarrow> NewMessage" where
  "batch_placeholder_message w taskID targetChatID username userID =
     \<lparr>msg_TweetID = ''batch_analysis_'' @ username,
      msg_ReplyTweetID = [],
      msg_Author = \<lparr>author_UserName = username, author_Name = username, author_ID = userID\<rparr>,
      msg_Text = ''Batch analysis request - no recent tweets found'',
      msg_CreatedAt = formatTime w ''2006-01-02T15:04:05Z07:00'' (clock w),
      msg_ParentTweet = \<lparr>ref_ID = ''placeholder_parent'', ref_Author = ''system'',
                         ref_Text = ''No parent tweet available - batch analysis''\<rparr>,
      msg_GrandParentTweet = no_tweet,
      msg_IsManualAnalysis = True,
      msg_ForceNotification = True,
      msg_TaskID = taskID,
      msg_TelegramChatID = targetChatID\<rparr>"

definition batch_tweet_message ::
  "world \<Rightarrow> string \<Rightarrow> int \<Rightarrow> string \<Rightarrow> TweetModel \<Rightarrow> NewMessage" where
  "batch_tweet_message w taskID targetChatID username tweet =
     \<lparr>msg_TweetID = tweet_ID tweet,
      msg_ReplyTweetID = tweet_InReplyToID tweet,
      msg_Author = \<lparr>author_UserName = username, author_Name = username,
                    author_ID = tweet_UserID tweet\<rparr>,
      msg_Text = tweet_Text tweet,
      msg_CreatedAt = formatTime w ''2006-01-02T15:04:05Z07:00'' (tweet_CreatedAt tweet),
      msg_ParentTweet = \<lparr>ref_ID = ''batch_parent'', ref_Author = ''system'',
                         ref_Text = ''Batch analysis - limited context available''\<rparr>,
      msg_GrandParentTweet = no_tweet,
      msg_IsManualAnalysis = True,
      msg_ForceNotification = True,
      msg_TaskID = taskID,
      msg_TelegramChatID = targetChatID\<rparr>"

definition processBatchAnalysisTask_body :: "world \<Rightarrow> string \<Rightarrow> int \<Rightarrow> outcome \<times> world" where
  "processBatchAnalysisTask_body w taskID targetChatID =
     (case GetAnalysisTask w taskID of
        None \<Rightarrow> (Returned, w)
      | Some task \<Rightarrow>
          let username = task_Username task;
              w1 = UpdateAnalysisTaskProgress w taskID ANALYSIS_STEP_USER_LOOKUP
                     ''Looking up user information...'';
              (userID, w2) = user_lookup w1 task username;
              w3 = UpdateAnalysisTaskProgress w2 taskID ANALYSIS_STEP_TICKER_SEARCH
                     ''Searching for user's ticker mentions...'';
              newMessage =
                (case GetUserTweetForAnalysis w3 username of
                   None \<Rightarrow> batch_placeholder_message w3 taskID targetChatID username userID
                 | Some tweet \<Rightarrow> batch_tweet_message w3 taskID targetChatID username tweet);
              w4 = UpdateAnalysisTaskProgress w3 taskID ANALYSIS_STEP_CLAUDE_ANALYSIS
                     ''Starting AI analysis...''
          in if channelClosed w4 then (Panicked SendOnClosedChannel, w4)
             else if channel_has_room w4 then (Returned, channel_push w4 newMessage)
             else (Blocked, w4))"

definition processBatchAnalysisTask :: "world \<Rightarrow> string \<Rightarrow> int \<Rightarrow> outcome \<times> world" where
  "processBatchAnalysisTask w taskID targetChatID =
     recover_task taskID (processBatchAnalysisTask_body w taskID targetChatID)"

section \<open>formatAnalysisProgress and monitorAnalysisProgress\<close>

fun step_emoji :: "analysis_step \<Rightarrow> string" where
  "step_emoji ANALYSIS_STEP_INIT = U_2699 @ U_FE0F"
| "step_emoji ANALYSIS_STEP_USER_LOOKUP = U_1F50D"
| "step_emoji ANALYSIS_STEP_TICKER_SEARCH = U_1F4CA"
| "step_emoji ANALYSIS_STEP_FOLLOWERS = U_1F465"
| "step_emoji ANALYSIS_STEP_FOLLOWINGS = U_1F464"
| "step_emoji ANALYSIS_STEP_COMMUNITY_ACTIVITY = U_1F3E0"
| "step_emoji ANALYSIS_STEP_CLAUDE_ANALYSIS = U_1F916"
| "step_emoji ANALYSIS_STEP_SAVING_RESULTS = U_1F4BE"

definition progress_failed :: "AnalysisTaskModel \<Rightarrow> string" where
  "progress_failed task =
     U_274C @ '' <b>Analysis Failed for @'' @ task_Username task @
     ''</b>\<newline>\<newline>'' @ U_26A0 @ U_FE0F @ '' <b>Error:</b> '' @ task_ErrorMessage task @
     ''\<newline>'' @ U_1F194 @ '' <b>Task ID:</b> <code>'' @ task_ID task @
     ''</code>\<newline>\<newline>'' @ U_1F504 @
       '' You can try running the analysis again.''"

definition progress_completed :: "AnalysisTaskModel \<Rightarrow> string" where
  "progress_completed task =
     U_2705 @ '' <b>Analysis Completed for @'' @ task_Username task @
     ''</b>\<newline>\<newline>'' @ U_1F4CB @
       '' <b>Status:</b> Finished successfully\<newline>'' @ U_1F50D @
       '' <b>Results:</b> Check FUD alerts for analysis results\<newline>'' @ U_1F194 @
       '' <b>Task ID:</b> <code>'' @
     task_ID task @
     ''</code>\<newline>\<newline>'' @ U_2705 @
       '' Analysis has been completed and results sent to notification system.''"

definition progress_running :: "AnalysisTaskModel \<Rightarrow> string \<Rightarrow> string \<Rightarrow> string" where
  "progress_running task stepEmoji elapsedStr =
     U_1F504 @ '' <b>Analyzing @'' @ task_Username task @ ''</b>\<newline>\<newline>'' @
     stepEmoji @ '' <b>Current Step:</b> '' @ task_ProgressText task @
     ''\<newline>'' @ U_23F1 @ U_FE0F @ '' <b>Running Time:</b> '' @ elapsedStr @
     ''\<newline>'' @ U_1F194 @ '' <b>Task ID:</b> <code>'' @ task_ID task @
     ''</code>\<newline>\<newline>'' @ U_23F3 @ '' Please wait, analysis in progress...''"

text \<open>
  \<open>elapsed.Minutes() >= 1\<close> holds from 60 seconds on; the two renderings of the
  duration (\<open>"%.0fs"\<close> of its seconds, \<open>"%.1fm"\<close> of its minutes) are parameters.
\<close>

definition formatAnalysisProgress :: "world \<Rightarrow> AnalysisTaskModel \<Rightarrow> string" where
  "formatAnalysisProgress w task =
     (if task_Status task = ANALYSIS_STATUS_FAILED then progress_failed task
      else if task_Status task = ANALYSIS_STATUS_COMPLETED then progress_completed task
      else
        let elapsed = clock w - task_StartedAt task;
            elapsedStr = (if 60 * 1000000000 \<le> elapsed then sprintf_minutes w elapsed
                          else sprintf_seconds w elapsed)
        in progress_running task (step_emoji (task_CurrentStep task)) elapsedStr)"

text \<open>
  The worlds are what the service sees at the successive ticks of the one-second ticker.
  When they are used up the goroutine is parked on the ticker. A failed \<open>EditMessage\<close>
  is logged and changes nothing.
\<close>

fun monitorAnalysisProgress :: "string \<Rightarrow> world list \<Rightarrow> outcome \<times> effect list" where
  "monitorAnalysisProgress taskID [] = (Blocked, [])"
| "monitorAnalysisProgress taskID (w # later) =
     (case GetAnalysisTask w taskID of
        None \<Rightarrow> (Returned, [])
      | Some task \<Rightarrow>
          let edit = EditMessage (task_TelegramChatID task) (task_MessageID task)
                       (formatAnalysisProgress w task)
          in if task_Status task = ANALYSIS_STATUS_COMPLETED
                \<or> task_Status task = ANALYSIS_STATUS_FAILED
             then (Returned, [edit])
             else (case monitorAnalysisProgress taskID later of
                     (out, edits) \<Rightarrow> (out, edit # edits)))"

section \<open>handleBatchAnalyzeCommand\<close>

definition cached_severity :: "SecondStepClaudeResponse \<Rightarrow> string" where
  "cached_severity cachedResult =
     (if resp_IsFUDUser cachedResult
      then (if resp_UserRiskLevel cachedResult = ''critical'' then U_1F6A8 @ U_1F525
            else if resp_UserRiskLevel cachedResult = ''high'' then U_1F6A8
            else if resp_UserRiskLevel cachedResult = ''medium'' then U_26A0 @ U_FE0F
            else U_2139 @ U_FE0F)
      else U_2705)"

definition cached_message :: "world \<Rightarrow> string \<Rightarrow> SecondStepClaudeResponse \<Rightarrow> string" where
  "cached_message w username cachedResult =
     (let alertType = (if \<not> resp_IsFUDUser cachedResult then ''clean_user''
                       else resp_FUDType cachedResult)
      in cached_severity cachedResult @
         '' <b>Batch Analysis Result (Cached)</b>\<newline>\<newline>'' @ U_1F464 @
       '' <b>User:</b> @'' @ username @
         ''\<newline>'' @ U_1F4CA @ '' <b>Status:</b> '' @
         (if resp_IsFUDUser cachedResult then ''FUD User Detected'' else ''Clean User'') @
         ''\<newline>'' @ U_1F3AF @ '' <b>Type:</b> '' @ alertType @
         ''\<newline>'' @ U_1F4C8 @ '' <b>Confidence:</b> '' @
         sprintf_percent w (resp_FUDProbability cachedResult) @
         ''%\<newline>'' @ U_1F465 @ '' <b>Profile:</b> '' @ resp_UserSummary cachedResult @
         ''\<newline>\<newline>'' @ U_1F4BE @
       '' <b>Source:</b> Cached analysis (< 24h)\<newline>'' @ U_1F50D @
       '' <b>Commands:</b> /history_'' @
         username @ '' | /analyze '' @ username)"

definition sendCachedBatchNotification ::
  "world \<Rightarrow> string \<Rightarrow> string \<Rightarrow> SecondStepClaudeResponse \<Rightarrow> int \<Rightarrow> effect list" where
  "sendCachedBatchNotification w username userID cachedResult targetChatID =
     [SendMessage targetChatID (cached_message w username cachedResult)]"

text \<open>The first loop: trim, strip one leading \<open>@\<close>, drop the empty, sort the rest in two.\<close>

fun cleanUsernames ::
  "string list \<Rightarrow> string list \<times> string list \<Rightarrow> string list \<times> string list" where
  "cleanUsernames [] found = found"
| "cleanUsernames (raw # rest) (validUsernames, invalidUsernames) =
     (let username = strings_TrimPrefix (strings_TrimSpace raw) ''@'' in
      if username = [] then cleanUsernames rest (validUsernames, invalidUsernames)
      else if length username > 50 \<or> strings_Contains_byte username CHR '' ''
      then cleanUsernames rest (validUsernames, invalidUsernames @ [username])
      else cleanUsernames rest (validUsernames @ [username], invalidUsernames))"

text \<open>The second loop, with its two counters, what it has done so far, and the service.\<close>

record batch_progress =
  analysisCount :: nat
  skippedCount :: nat
  performed :: "effect list"
  service :: world

definition batch_task :: "world \<Rightarrow> string \<Rightarrow> string \<Rightarrow> UserModel option \<Rightarrow> int \<Rightarrow> AnalysisTaskModel" where
  "batch_task w taskID username user chatID =
     \<lparr>task_ID = taskID,
      task_Username = username,
      task_UserID = (case user of None \<Rightarrow> [] | Some u \<Rightarrow> user_ID u),
      task_Status = ANALYSIS_STATUS_PENDING,
      task_CurrentStep = ANALYSIS_STEP_INIT,
      task_ProgressText = ''Queued for batch analysis...'',
      task_ErrorMessage = [],
      task_TelegramChatID = chatID,
      task_MessageID = 0,
      task_StartedAt = clock w\<rparr>"

definition has_cached :: "world \<Rightarrow> UserModel option \<Rightarrow> bool" where
  "has_cached w user =
     (case user of None \<Rightarrow> False | Some u \<Rightarrow> HasValidCachedAnalysis w (user_ID u))"

definition batch_iteration :: "int \<Rightarrow> batch_progress \<Rightarrow> string \<Rightarrow> batch_progress" where
  "batch_iteration chatID p username =
     (let w = service p; user = GetUserByUsername w username in
      if has_cached w user
      then p\<lparr>skippedCount := skippedCount p + 1,
             performed := performed p @
               (case user of
                  None \<Rightarrow> []
                | Some u \<Rightarrow>
                    (case GetCachedAnalysis w (user_ID u) of
                       None \<Rightarrow> []
                     | Some cachedResult \<Rightarrow>
                         [Go (Run_sendCachedBatchNotification username (user_ID u)
                                cachedResult chatID)]))\<rparr>
      else
        let (taskID, w1) = generateNotificationID w;
            task = batch_task w1 taskID username user chatID
        in (case CreateAnalysisTask w1 task of
              None \<Rightarrow> p\<lparr>service := w1\<rparr>
            | Some w2 \<Rightarrow>
                p\<lparr>analysisCount := analysisCount p + 1,
                  performed := performed p @
                    [Go (Run_processBatchAnalysisTask taskID chatID), Sleep_ms 150],
                  service := w2\<rparr>))"

fun batch_loop :: "int \<Rightarrow> batch_progress \<Rightarrow> string list \<Rightarrow> batch_progress" where
  "batch_loop chatID p [] = p"
| "batch_loop chatID p (username # rest) = batch_loop chatID (batch_iteration chatID p username) rest"

definition validate_usernames :: "string list \<Rightarrow> string list \<times> string list" where
  "validate_usernames args =
     cleanUsernames (strings_Split (strings_Join args '' '') CHR '','') ([], [])"

definition handleBatchAnalyzeCommand :: "world \<Rightarrow> int \<Rightarrow> string list \<Rightarrow> effect list \<times> world" where
  "handleBatchAnalyzeCommand w chatID args =
     (case args of
        [] \<Rightarrow> ([SendMessage chatID batch_usage], w)
      | first # _ \<Rightarrow>
          if strings_TrimSpace first = [] then ([SendMessage chatID batch_usage], w)
          else
            let (validUsernames, invalidUsernames) = validate_usernames args in
            if length validUsernames = 0 then ([SendMessage chatID batch_no_valid], w)
            else if length validUsernames > 20
            then ([SendMessage chatID (batch_too_many (length validUsernames))], w)
            else
              let p = batch_loop chatID
                        \<lparr>analysisCount = 0, skippedCount = 0,
                         performed = [SendMessage chatID
                                        (batch_confirmation validUsernames invalidUsernames)],
                         service = w\<rparr>
                        validUsernames
              in (performed p @
                    [SendMessage chatID
                       (batch_summary (analysisCount p) (skippedCount p)
                          (length validUsernames))],
                  service p))"

section \<open>A service to run the code on\<close>

text \<open>
  One user, alice, with a cached analysis less than a day old; nobody else is known.
  The store accepts every insert, the channel has room for one work item.
\<close>

definition alice :: UserModel where
  "alice = \<lparr>user_ID = ''1001'', user_Username = ''alice'', user_Name = ''Alice''\<rparr>"

definition alice_cached :: SecondStepClaudeResponse where
  "alice_cached =
     \<lparr>resp_IsFUDUser = False, resp_FUDType = [], resp_UserRiskLevel = ''low'',
      resp_FUDProbability = 0, resp_UserSummary = ''nothing suspicious''\<rparr>"

definition example_service :: world where
  "example_service =
     \<lparr>tasks = Map.empty,
      users = [''alice'' \<mapsto> alice],
      analysisTweet = Map.empty,
      userMessages = (\<lambda>username limit. Inr []),
      validCachedAnalysis = (\<lambda>userID. userID = ''1001''),
      cachedAnalysis = [''1001'' \<mapsto> alice_cached],
      createRejected = (\<lambda>task. False),
      analysisChannel = [],
      channelCapacity = 1,
      channelClosed = False,
      randomIDs = (\<lambda>n. ''id'' @ showNat n),
      idsDrawn = 0,
      clock = 0,
      formatTime = (\<lambda>layout t. showInt t),
      sprintf_seconds = (\<lambda>d. showInt (d div 1000000000) @ ''s''),
      sprintf_minutes = (\<lambda>d. showInt (d div 60000000000) @ ''m''),
      sprintf_percent = (\<lambda>p. ''0'')\<rparr>"

text \<open>A task admitted for bob, who is not in the store.\<close>

definition bob_task :: AnalysisTaskModel where
  "bob_task = batch_task example_service ''id0'' ''bob'' None 42"

definition service_with_bob :: world where
  "service_with_bob = example_service\<lparr>tasks := [''id0'' \<mapsto> bob_task]\<rparr>"

text \<open>
  The same with the channel full (the one place of its buffer is taken by a work item
  that the worker has not yet received), and with the channel closed.
\<close>

definition queued_item :: NewMessage where
  "queued_item =
     batch_placeholder_message example_service ''id7'' 42 ''carol'' ''unknown_carol''"

definition service_full :: world where
  "service_full = service_with_bob\<lparr>analysisChannel := [queued_item]\<rparr>"

definition service_closed :: world where
  "service_closed = service_with_bob\<lparr>channelClosed := True\<rparr>"

text \<open>A task admitted for alice with no user ID yet.\<close>

definition alice_task :: AnalysisTaskModel where
  "alice_task = batch_task example_service ''id1'' ''alice'' None 42"

definition service_with_alice :: world where
  "service_with_alice = example_service\<lparr>tasks := [''id1'' \<mapsto> alice_task]\<rparr>"

text \<open>The service after the worker has completed bob's task.\<close>

definition service_bob_done :: world where
  "service_bob_done =
     example_service\<lparr>tasks := [''id0'' \<mapsto> bob_task\<lparr>task_Status := ANALYSIS_STATUS_COMPLETED\<rparr>]\<rparr>"

text \<open>The service when the store announces alice's cached analysis but cannot read it.\<close>

definition service_cache_unreadable :: world where
  "service_cache_unreadable = example_service\<lparr>cachedAnalysis := Map.empty\<rparr>"

section \<open>Properties of truncateText\<close>

declare showNat.simps [simp del]

lemma sint_sub3: "3 \<le> sint (m :: 64 word) \<Longrightarrow> sint (m - 3) = sint m - 3"
proof -
  assume h: "3 \<le> sint m"
  have "sint m < 2 ^ 63" using sint_lt[of m] by simp
  with h have "signed_take_bit 63 (sint m - 3) = sint m - 3"
    by (intro signed_take_bit_int_eq_self) simp_all
  then show ?thesis by (simp add: sint_word_ariths)
qed

lemma sint_add3:
  "0 \<le> sint (k :: 64 word) \<Longrightarrow> sint k < 2 ^ 63 - 3 \<Longrightarrow> sint (k + 3) = sint k + 3"
proof -
  assume h: "0 \<le> sint k" "sint k < 2 ^ 63 - 3"
  then have "signed_take_bit 63 (sint k + 3) = sint k + 3"
    by (intro signed_take_bit_int_eq_self) simp_all
  then show ?thesis by (simp add: sint_word_ariths)
qed

text \<open>
  Below 3 the upper index of the slice is negative, or, when the subtraction wraps
  around, larger than any string can be.
\<close>

lemma sint_sub3_small:
  assumes "sint (m :: 64 word) < 3"
  shows "sint (m - 3) < 0 \<or> 2 ^ 63 - 3 \<le> sint (m - 3)"
proof (rule ccontr)
  assume "\<not> ?thesis"
  then have k: "0 \<le> sint (m - 3)" "sint (m - 3) < 2 ^ 63 - 3" by simp_all
  then have "sint (m - 3 + 3) = sint (m - 3) + 3" by (rule sint_add3)
  with k(1) assms show False by simp
qed

text \<open>
  C10. For every text and every \<open>maxLength \<ge> 3\<close>: a text of at most \<open>maxLength\<close> bytes
  is returned unchanged; a longer one is cut to exactly \<open>maxLength\<close> bytes, the first
  \<open>maxLength - 3\<close> bytes of the text followed by \<open>"..."\<close>. The bound 3 is needed: with
  \<open>maxLength < 3\<close> and a longer text the slice \<open>text[:maxLength-3]\<close> panics (for a text
  whose length is a Go \<open>int\<close> that the wrapped index cannot reach).
\<close>

theorem truncateText_bounds:
  "(3 \<le> sint maxLength \<longrightarrow>
      (int (length text) \<le> sint maxLength \<longrightarrow> truncateText text maxLength = Inr text) \<and>
      (sint maxLength < int (length text) \<longrightarrow>
         (\<exists>r. truncateText text maxLength = Inr r \<and> int (length r) = sint maxLength \<and>
              drop (length r - 3) r = ''...'' \<and>
              take (length r - 3) r = take (length r - 3) text))) \<and>
   (sint maxLength < 3 \<and> sint maxLength < int (length text) \<and>
    int (length text) < 2 ^ 63 - 3 \<longrightarrow>
      truncateText text maxLength = Inl SliceBoundsOutOfRange)"
  using sint_sub3[of maxLength] sint_sub3_small[of maxLength]
  by (auto simp: truncateText_def slice_to_def)

theorem truncateText_bounds_witness:
  "(3 \<le> sint (8 :: 64 word) \<and> sint (8 :: 64 word) < int (length ''hello world'') \<and>
      truncateText ''hello world'' 8 = Inr ''hello...'') \<and>
   (3 \<le> sint (5 :: 64 word) \<and> int (length ''hello'') \<le> sint (5 :: 64 word) \<and>
      truncateText ''hello'' 5 = Inr ''hello'') \<and>
   (sint (2 :: 64 word) < 3 \<and> sint (2 :: 64 word) < int (length ''hello'') \<and>
      int (length ''hello'') < 2 ^ 63 - 3 \<and>
      truncateText ''hello'' 2 = Inl SliceBoundsOutOfRange)"
  using truncateText_bounds[of 8 "''hello world''"] truncateText_bounds[of 5 "''hello''"]
    truncateText_bounds[of 2 "''hello''"]
  by (simp add: truncateText_def slice_to_def)

section \<open>Properties of handleHistoryCommand\<close>

lemma strings_Split_length: "length (strings_Split s sep) = Suc (count_list s sep)"
  by (induction s) (auto split: list.splits)

lemma count_list_ge1: "c \<in> set s \<Longrightarrow> 1 \<le> count_list s c"
  by (induction s) auto

text \<open>
  C9. A command \<open>/history_<username>\<close> whose username contains an underscore is
  answered with the invalid-format reply and nothing else: the store is not queried.
  The help text sent by \<open>handleHelpCommand\<close> nevertheless shows
  \<open>/history_john_doe\<close> as its example.
\<close>

theorem handleHistoryCommand_rejects_underscore_username:
  "CHR ''_'' \<in> set username \<Longrightarrow>
     handleHistoryCommand w chatID (''/history_'' @ username)
       = (Returned, [SendMessage chatID history_invalid_format]) \<and>
     handleHelpCommand chatID = [SendMessage chatID (helpMessage chatID)] \<and>
     sublist ''/history_john_doe'' (helpMessage chatID)"
proof -
  assume u: "CHR ''_'' \<in> set username"
  have "length (strings_Split (''/history_'' @ username) CHR ''_'')
          = Suc (Suc (count_list username CHR ''_''))"
    by (simp add: strings_Split_length)
  with count_list_ge1[OF u]
  have "length (strings_Split (''/history_'' @ username) CHR ''_'') \<noteq> 2"
    by simp
  then have a: "handleHistoryCommand w chatID (''/history_'' @ username)
       = (Returned, [SendMessage chatID history_invalid_format])"
    by (simp add: handleHistoryCommand_def Let_def)
  have b: "sublist ''/history_john_doe'' (helpMessage chatID)"
    unfolding helpMessage_def by (rule sublist_appendI)
  from a b show ?thesis by (simp add: handleHelpCommand_def)
qed

theorem handleHistoryCommand_rejects_underscore_username_witness:
  "CHR ''_'' \<in> set ''john_doe'' \<and>
   handleHistoryCommand example_service 42 ''/history_john_doe''
     = (Returned, [SendMessage 42 history_invalid_format]) \<and>
   sublist ''/history_john_doe'' (helpMessage 42)"
  using handleHistoryCommand_rejects_underscore_username[of "''john_doe''" example_service 42]
  by simp

section \<open>Properties of the task runners\<close>

subsection \<open>What the store operations leave alone\<close>

lemma UpdateAnalysisTaskProgress_frame [simp]:
  "users (UpdateAnalysisTaskProgress w i s t) = users w"
  "analysisTweet (UpdateAnalysisTaskProgress w i s t) = analysisTweet w"
  "analysisChannel (UpdateAnalysisTaskProgress w i s t) = analysisChannel w"
  "channelCapacity (UpdateAnalysisTaskProgress w i s t) = channelCapacity w"
  "channelClosed (UpdateAnalysisTaskProgress w i s t) = channelClosed w"
  "formatTime (UpdateAnalysisTaskProgress w i s t) = formatTime w"
  "clock (UpdateAnalysisTaskProgress w i s t) = clock w"
  by (simp_all add: UpdateAnalysisTaskProgress_def split: option.splits)

lemma UpdateAnalysisTaskProgress_tasks:
  "tasks (UpdateAnalysisTaskProgress w i s t) j =
     (if j = i
      then map_option (\<lambda>r. r\<lparr>task_Status := ANALYSIS_STATUS_RUNNING, task_CurrentStep := s,
                              task_ProgressText := t\<rparr>) (tasks w i)
      else tasks w j)"
  by (simp add: UpdateAnalysisTaskProgress_def split: option.splits)

lemma SetAnalysisTaskError_frame [simp]:
  "users (SetAnalysisTaskError w i m) = users w"
  "analysisTweet (SetAnalysisTaskError w i m) = analysisTweet w"
  "analysisChannel (SetAnalysisTaskError w i m) = analysisChannel w"
  "channelCapacity (SetAnalysisTaskError w i m) = channelCapacity w"
  "channelClosed (SetAnalysisTaskError w i m) = channelClosed w"
  "formatTime (SetAnalysisTaskError w i m) = formatTime w"
  "clock (SetAnalysisTaskError w i m) = clock w"
  by (simp_all add: SetAnalysisTaskError_def split: option.splits)

lemma SetAnalysisTaskError_tasks:
  "tasks (SetAnalysisTaskError w i m) j =
     (if j = i
      then map_option (\<lambda>r. r\<lparr>task_Status := ANALYSIS_STATUS_FAILED, task_ErrorMessage := m\<rparr>)
             (tasks w i)
      else tasks w j)"
  by (simp add: SetAnalysisTaskError_def split: option.splits)

lemma user_lookup_frame [simp]:
  "users (snd (user_lookup w task u)) = users w"
  "analysisTweet (snd (user_lookup w task u)) = analysisTweet w"
  "analysisChannel (snd (user_lookup w task u)) = analysisChannel w"
  "channelCapacity (snd (user_lookup w task u)) = channelCapacity w"
  "channelClosed (snd (user_lookup w task u)) = channelClosed w"
  "formatTime (snd (user_lookup w task u)) = formatTime w"
  "clock (snd (user_lookup w task u)) = clock w"
  by (simp_all add: user_lookup_def UpdateAnalysisTask_def GetUserByUsername_def
      split: option.splits)

lemma user_lookup_tasks:
  "tasks (snd (user_lookup w task u)) j =
     (case users w u of
        None \<Rightarrow> tasks w j
      | Some user \<Rightarrow>
          if j = task_ID task then Some (task\<lparr>task_UserID := user_ID user\<rparr>) else tasks w j)"
  by (simp add: user_lookup_def UpdateAnalysisTask_def GetUserByUsername_def
      split: option.splits)

lemma user_lookup_fst:
  "fst (user_lookup w task u) =
     (case users w u of None \<Rightarrow> ''unknown_'' @ u | Some user \<Rightarrow> user_ID user)"
  by (simp add: user_lookup_def GetUserByUsername_def split: option.splits)

lemma channel_push_frame [simp]:
  "tasks (channel_push w m) = tasks w"
  "analysisChannel (channel_push w m) = analysisChannel w @ [m]"
  by (simp_all add: channel_push_def)

lemma channel_has_room_frame [simp]:
  "channel_has_room (UpdateAnalysisTaskProgress w i s t) = channel_has_room w"
  "channel_has_room (SetAnalysisTaskError w i m) = channel_has_room w"
  "channel_has_room (snd (user_lookup w task u)) = channel_has_room w"
  by (simp_all add: channel_has_room_def)

lemma processBatchAnalysisTask_body_outcome:
  "tasks w taskID = Some task \<Longrightarrow>
   fst (processBatchAnalysisTask_body w taskID chat) =
     (if channelClosed w then Panicked SendOnClosedChannel
      else if channel_has_room w then Returned else Blocked)"
  by (simp add: processBatchAnalysisTask_body_def GetAnalysisTask_def Let_def split_beta)

lemma processAnalysisTask_body_outcome:
  "fst (processAnalysisTask_body w taskID) =
     (if tasks w taskID \<noteq> None \<and> channelClosed w then Panicked SendOnClosedChannel
      else Returned)"
  by (simp add: processAnalysisTask_body_def GetAnalysisTask_def Let_def split_beta
      split: option.splits)

lemma recover_task_fst:
  "fst (recover_task taskID r) = (case fst r of Panicked p \<Rightarrow> Returned | out \<Rightarrow> out)"
  by (cases r) (simp add: recover_task_def split: outcome.splits)

lemma recover_task_snd:
  "snd (recover_task taskID r) =
     (case fst r of
        Panicked p \<Rightarrow> SetAnalysisTaskError (snd r) taskID (''Internal error: '' @ panic_text p)
      | out \<Rightarrow> snd r)"
  by (cases r) (simp add: recover_task_def split: outcome.splits)

lemma processAnalysisTask_returns: "fst (processAnalysisTask w taskID) = Returned"
  by (simp add: processAnalysisTask_def recover_task_fst processAnalysisTask_body_outcome)

lemma processBatchAnalysisTask_outcome:
  "tasks w taskID = Some task \<Longrightarrow>
   fst (processBatchAnalysisTask w taskID chat) =
     (if \<not> channelClosed w \<and> \<not> channel_has_room w then Blocked else Returned)"
  by (simp add: processBatchAnalysisTask_def recover_task_fst processBatchAnalysisTask_body_outcome)

text \<open>The record of the task when the body of a runner is done.\<close>

lemma processBatchAnalysisTask_body_task:
  assumes "tasks w taskID = Some task"
  shows "\<exists>t. tasks (snd (processBatchAnalysisTask_body w taskID chat)) taskID = Some t \<and>
             task_Status t = ANALYSIS_STATUS_RUNNING \<and>
             task_CurrentStep t = ANALYSIS_STEP_CLAUDE_ANALYSIS \<and>
             task_ErrorMessage t = task_ErrorMessage task \<and>
             task_Username t = task_Username task \<and>
             task_UserID t =
               (case users w (task_Username task) of
                  None \<Rightarrow> task_UserID task
                | Some user \<Rightarrow> if task_ID task = taskID then user_ID user else task_UserID task)"
  using assms
  by (auto simp: processBatchAnalysisTask_body_def GetAnalysisTask_def Let_def split_beta
      UpdateAnalysisTaskProgress_tasks user_lookup_tasks split: option.splits)

lemma processAnalysisTask_body_task:
  assumes "tasks w taskID = Some task"
  shows "\<exists>t. tasks (snd (processAnalysisTask_body w taskID)) taskID = Some t \<and>
             task_Status t =
               (if \<not> channelClosed w \<and> \<not> channel_has_room w then ANALYSIS_STATUS_FAILED
                else ANALYSIS_STATUS_RUNNING) \<and>
             task_CurrentStep t = ANALYSIS_STEP_CLAUDE_ANALYSIS \<and>
             task_ErrorMessage t =
               (if \<not> channelClosed w \<and> \<not> channel_has_room w
                then ''Analysis channel is full, please try again later''
                else task_ErrorMessage task) \<and>
             task_Username t = task_Username task \<and>
             task_UserID t =
               (case users w (task_Username task) of
                  None \<Rightarrow> task_UserID task
                | Some user \<Rightarrow> if task_ID task = taskID then user_ID user else task_UserID task)"
  using assms
  by (auto simp: processAnalysisTask_body_def GetAnalysisTask_def Let_def split_beta
      UpdateAnalysisTaskProgress_tasks user_lookup_tasks SetAnalysisTaskError_tasks split: option.splits)


lemma processAnalysisTask_body_channel:
  assumes "tasks w taskID = Some task"
  shows "analysisChannel (snd (processAnalysisTask_body w taskID)) =
           (if \<not> channelClosed w \<and> channel_has_room w
            then analysisChannel w @
                   [case analysisTweet w (task_Username task) of
                      None \<Rightarrow>
                        manual_placeholder_message w taskID (task_Username task)
                          (fst (user_lookup w task (task_Username task)))
                    | Some tweet \<Rightarrow> manual_tweet_message w taskID (task_Username task) tweet]
            else analysisChannel w)"
  using assms
  by (simp add: processAnalysisTask_body_def GetAnalysisTask_def Let_def split_beta
      GetUserTweetForAnalysis_def user_lookup_fst manual_placeholder_message_def
      manual_tweet_message_def split: option.splits)

lemma processBatchAnalysisTask_body_channel:
  assumes "tasks w taskID = Some task"
  shows "analysisChannel (snd (processBatchAnalysisTask_body w taskID chat)) =
           (if \<not> channelClosed w \<and> channel_has_room w
            then analysisChannel w @
                   [case analysisTweet w (task_Username task) of
                      None \<Rightarrow>
                        batch_placeholder_message w taskID chat (task_Username task)
                          (fst (user_lookup w task (task_Username task)))
                    | Some tweet \<Rightarrow> batch_tweet_message w taskID chat (task_Username task) tweet]
            else analysisChannel w)"
  using assms
  by (simp add: processBatchAnalysisTask_body_def GetAnalysisTask_def Let_def split_beta
      GetUserTweetForAnalysis_def user_lookup_fst batch_placeholder_message_def
      batch_tweet_message_def split: option.splits)

subsection \<open>The example services\<close>

lemma service_full_facts:
  "tasks service_full ''id0'' = Some bob_task"
  "\<not> channelClosed service_full"
  "\<not> channel_has_room service_full"
  "analysisChannel service_full = [queued_item]"
  "users service_full (task_Username bob_task) = None"
  "task_ErrorMessage bob_task = []"
  by (simp_all add: service_full_def service_with_bob_def example_service_def
      channel_has_room_def bob_task_def batch_task_def)

lemma service_closed_facts:
  "tasks service_closed ''id0'' = Some bob_task"
  "channelClosed service_closed"
  by (simp_all add: service_closed_def service_with_bob_def example_service_def)

lemma service_with_bob_facts:
  "tasks service_with_bob ''id0'' = Some bob_task"
  "\<not> channelClosed service_with_bob"
  "channel_has_room service_with_bob"
  "analysisChannel service_with_bob = []"
  "users service_with_bob (task_Username bob_task) = None"
  "analysisTweet service_with_bob (task_Username bob_task) = None"
  "task_Username bob_task = ''bob''"
  "users service_with_bob ''bob'' = None"
  "analysisTweet service_with_bob ''bob'' = None"
  by (simp_all add: service_with_bob_def example_service_def
      channel_has_room_def bob_task_def batch_task_def)

lemma service_with_alice_facts:
  "tasks service_with_alice ''id1'' = Some alice_task"
  "users service_with_alice (task_Username alice_task) = Some alice"
  "task_ID alice_task = ''id1''"
  "task_UserID alice_task = []"
  "user_ID alice = ''1001''"
  "task_Username alice_task = ''alice''"
  "users service_with_alice ''alice'' = Some alice"
  by (simp_all add: service_with_alice_def example_service_def
      alice_task_def batch_task_def alice_def)

subsection \<open>What the runners guarantee\<close>

text \<open>
  The single-task runner never parks on the channel, and with a full channel it leaves
  the task failed with the channel-full message and enqueues nothing.
\<close>

lemma processAnalysisTask_full_channel_fails:
  assumes "tasks w taskID = Some task" "\<not> channelClosed w" "\<not> channel_has_room w"
  shows "fst (processAnalysisTask w taskID) = Returned"
    and "\<exists>t. tasks (snd (processAnalysisTask w taskID)) taskID = Some t \<and>
             task_Status t = ANALYSIS_STATUS_FAILED \<and>
             task_ErrorMessage t = ''Analysis channel is full, please try again later''"
    and "analysisChannel (snd (processAnalysisTask w taskID)) = analysisChannel w"
  using assms processAnalysisTask_body_task[OF assms(1)]
    processAnalysisTask_body_channel[OF assms(1)]
  by (auto simp: processAnalysisTask_def recover_task_fst recover_task_snd
      processAnalysisTask_body_outcome)

text \<open>
  C1. The enqueue of every admitted task, batch admissions included, is specified as an
  attempt that never waits for the worker. The batch runner sends with a plain channel
  send: on the service whose channel is full it is parked on the channel, where the
  single-task runner returns.
\<close>

theorem processBatchAnalysisTask_parks_on_full_channel:
  "fst (processBatchAnalysisTask service_full ''id0'' 42) = Blocked \<and>
   fst (processAnalysisTask service_full ''id0'') = Returned"
  using processBatchAnalysisTask_outcome[OF service_full_facts(1), of 42]
  by (simp add: service_full_facts processAnalysisTask_returns)

text \<open>
  C3. Every admission with a full channel is specified to end as a failed task with a
  message. A batch admission does not: parked on the full channel, its task is
  running, its error message is empty, and its work item is not in the channel.
\<close>

theorem processBatchAnalysisTask_full_channel_leaves_task_running:
  "fst (processBatchAnalysisTask service_full ''id0'' 42) = Blocked \<and>
   map_option task_Status (tasks (snd (processBatchAnalysisTask service_full ''id0'' 42)) ''id0'')
     = Some ANALYSIS_STATUS_RUNNING \<and>
   map_option task_ErrorMessage
       (tasks (snd (processBatchAnalysisTask service_full ''id0'' 42)) ''id0'')
     = Some [] \<and>
   analysisChannel (snd (processBatchAnalysisTask service_full ''id0'' 42)) = [queued_item]"
proof -
  have b: "fst (processBatchAnalysisTask_body service_full ''id0'' 42) = Blocked"
    using processBatchAnalysisTask_body_outcome[OF service_full_facts(1), of 42]
    by (simp add: service_full_facts)
  then have s: "snd (processBatchAnalysisTask service_full ''id0'' 42)
               = snd (processBatchAnalysisTask_body service_full ''id0'' 42)"
    by (simp add: processBatchAnalysisTask_def recover_task_snd)
  from b have f: "fst (processBatchAnalysisTask service_full ''id0'' 42) = Blocked"
    by (simp add: processBatchAnalysisTask_def recover_task_fst)
  from processBatchAnalysisTask_body_task[OF service_full_facts(1), of 42]
    processBatchAnalysisTask_body_channel[OF service_full_facts(1), of 42]
  show ?thesis
    using f s by (auto simp: service_full_facts)
qed

text \<open>
  C7. The deferred function lets no panic through, whatever the body did, and turns
  the record of the task into a failed one whose error message is
  \<open>"Internal error: "\<close> followed by the recovered value. So neither runner ends in a
  panic, and when the body of a runner panics with a value, the runner returns and
  the task's record is failed with that message.
\<close>

theorem runner_panic_becomes_failed_task:
  "fst (recover_task taskID r) \<noteq> Panicked p \<and>
   (fst r = Panicked p \<and> tasks (snd r) taskID = Some t \<longrightarrow>
      fst (recover_task taskID r) = Returned \<and>
      tasks (snd (recover_task taskID r)) taskID =
        Some (t\<lparr>task_Status := ANALYSIS_STATUS_FAILED,
                 task_ErrorMessage := ''Internal error: '' @ panic_text p\<rparr>)) \<and>
   fst (processAnalysisTask w taskID) \<noteq> Panicked p \<and>
   fst (processBatchAnalysisTask w taskID chat) \<noteq> Panicked p \<and>
   (fst (processAnalysisTask_body w taskID) = Panicked p \<longrightarrow>
      fst (processAnalysisTask w taskID) = Returned \<and>
      (\<exists>t. tasks (snd (processAnalysisTask w taskID)) taskID = Some t \<and>
           task_Status t = ANALYSIS_STATUS_FAILED \<and>
           task_ErrorMessage t = ''Internal error: '' @ panic_text p)) \<and>
   (fst (processBatchAnalysisTask_body w taskID chat) = Panicked p \<longrightarrow>
      fst (processBatchAnalysisTask w taskID chat) = Returned \<and>
      (\<exists>t. tasks (snd (processBatchAnalysisTask w taskID chat)) taskID = Some t \<and>
           task_Status t = ANALYSIS_STATUS_FAILED \<and>
           task_ErrorMessage t = ''Internal error: '' @ panic_text p))"
proof (intro conjI impI)
  show "fst (recover_task taskID r) \<noteq> Panicked p"
    by (simp add: recover_task_fst split: outcome.splits)
next
  assume "fst r = Panicked p \<and> tasks (snd r) taskID = Some t"
  then show "fst (recover_task taskID r) = Returned"
    and "tasks (snd (recover_task taskID r)) taskID =
        Some (t\<lparr>task_Status := ANALYSIS_STATUS_FAILED,
                 task_ErrorMessage := ''Internal error: '' @ panic_text p\<rparr>)"
    by (simp_all add: recover_task_fst recover_task_snd SetAnalysisTaskError_tasks)
next
  show "fst (processAnalysisTask w taskID) \<noteq> Panicked p"
    by (simp add: processAnalysisTask_returns)
  show "fst (processBatchAnalysisTask w taskID chat) \<noteq> Panicked p"
    by (simp add: processBatchAnalysisTask_def recover_task_fst split: outcome.splits)
next
  assume a: "fst (processAnalysisTask_body w taskID) = Panicked p"
  show "fst (processAnalysisTask w taskID) = Returned"
    by (simp add: processAnalysisTask_returns)
  from a obtain task where t: "tasks w taskID = Some task"
    by (auto simp: processAnalysisTask_body_outcome split: if_splits)
  from processAnalysisTask_body_task[OF t] a
  show "\<exists>t. tasks (snd (processAnalysisTask w taskID)) taskID = Some t \<and>
           task_Status t = ANALYSIS_STATUS_FAILED \<and>
           task_ErrorMessage t = ''Internal error: '' @ panic_text p"
    by (auto simp: processAnalysisTask_def recover_task_snd SetAnalysisTaskError_tasks)
next
  assume a: "fst (processBatchAnalysisTask_body w taskID chat) = Panicked p"
  then show "fst (processBatchAnalysisTask w taskID chat) = Returned"
    by (simp add: processBatchAnalysisTask_def recover_task_fst)
  have "tasks w taskID \<noteq> None"
  proof
    assume "tasks w taskID = None"
    then have "processBatchAnalysisTask_body w taskID chat = (Returned, w)"
      by (simp add: processBatchAnalysisTask_body_def GetAnalysisTask_def)
    with a show False by simp
  qed
  then obtain task where t: "tasks w taskID = Some task" by auto
  from processBatchAnalysisTask_body_task[OF t, of chat] a
  show "\<exists>t. tasks (snd (processBatchAnalysisTask w taskID chat)) taskID = Some t \<and>
           task_Status t = ANALYSIS_STATUS_FAILED \<and>
           task_ErrorMessage t = ''Internal error: '' @ panic_text p"
    by (auto simp: processBatchAnalysisTask_def recover_task_snd SetAnalysisTaskError_tasks)
qed

theorem runner_panic_becomes_failed_task_witness:
  "fst (processAnalysisTask_body service_closed ''id0'') = Panicked SendOnClosedChannel \<and>
   fst (processAnalysisTask service_closed ''id0'') = Returned \<and>
   (\<exists>t. tasks (snd (processAnalysisTask service_closed ''id0'')) ''id0'' = Some t \<and>
        task_Status t = ANALYSIS_STATUS_FAILED \<and>
        task_ErrorMessage t = ''Internal error: send on closed channel'') \<and>
   fst (processBatchAnalysisTask_body service_closed ''id0'' 42) = Panicked SendOnClosedChannel \<and>
   fst (processBatchAnalysisTask service_closed ''id0'' 42) = Returned \<and>
   (\<exists>t. tasks (snd (processBatchAnalysisTask service_closed ''id0'' 42)) ''id0'' = Some t \<and>
        task_Status t = ANALYSIS_STATUS_FAILED \<and>
        task_ErrorMessage t = ''Internal error: send on closed channel'')"
proof -
  have a: "fst (processAnalysisTask_body service_closed ''id0'') = Panicked SendOnClosedChannel"
    by (simp add: processAnalysisTask_body_outcome service_closed_facts)
  have b: "fst (processBatchAnalysisTask_body service_closed ''id0'' 42)
             = Panicked SendOnClosedChannel"
    using processBatchAnalysisTask_body_outcome[OF service_closed_facts(1), of 42]
    by (simp add: service_closed_facts)
  show ?thesis
    using runner_panic_becomes_failed_task
      [of "''id0''" "processAnalysisTask_body service_closed ''id0''" SendOnClosedChannel
          _ service_closed 42] a b
    by simp
qed

text \<open>
  C8. A username that the store cannot resolve does not fail the task: the user
  lookup yields the placeholder \<open>"unknown_" + username\<close>, and with an open channel that
  has room both runners return with the task running and one work item enqueued,
  whose author ID is the placeholder (when a tweet of the user is found, the work item
  is built from the tweet and carries the tweet's user ID). When the username is
  resolved, the record of the task carries the user's ID after the runner.
\<close>

theorem unresolved_username_gets_placeholder:
  assumes "tasks w taskID = Some task"
  shows
    "(GetUserByUsername w (task_Username task) = None \<and> \<not> channelClosed w \<and> channel_has_room w
        \<longrightarrow>
      fst (user_lookup w task (task_Username task)) = ''unknown_'' @ task_Username task \<and>
      fst (processAnalysisTask w taskID) = Returned \<and>
      fst (processBatchAnalysisTask w taskID chat) = Returned \<and>
      map_option task_Status (tasks (snd (processAnalysisTask w taskID)) taskID)
        = Some ANALYSIS_STATUS_RUNNING \<and>
      map_option task_Status (tasks (snd (processBatchAnalysisTask w taskID chat)) taskID)
        = Some ANALYSIS_STATUS_RUNNING \<and>
      (\<exists>m. analysisChannel (snd (processAnalysisTask w taskID)) = analysisChannel w @ [m] \<and>
           msg_TaskID m = taskID \<and>
           author_ID (msg_Author m) =
             (case GetUserTweetForAnalysis w (task_Username task) of
                None \<Rightarrow> ''unknown_'' @ task_Username task
              | Some tweet \<Rightarrow> tweet_UserID tweet)) \<and>
      (\<exists>m. analysisChannel (snd (processBatchAnalysisTask w taskID chat))
             = analysisChannel w @ [m] \<and>
           msg_TaskID m = taskID \<and>
           author_ID (msg_Author m) =
             (case GetUserTweetForAnalysis w (task_Username task) of
                None \<Rightarrow> ''unknown_'' @ task_Username task
              | Some tweet \<Rightarrow> tweet_UserID tweet))) \<and>
     (\<forall>user. GetUserByUsername w (task_Username task) = Some user \<and> task_ID task = taskID
        \<longrightarrow>
      fst (user_lookup w task (task_Username task)) = user_ID user \<and>
      map_option task_UserID (tasks (snd (processAnalysisTask w taskID)) taskID)
        = Some (user_ID user) \<and>
      map_option task_UserID (tasks (snd (processBatchAnalysisTask w taskID chat)) taskID)
        = Some (user_ID user))"
proof (intro conjI impI allI)
  assume h: "GetUserByUsername w (task_Username task) = None \<and> \<not> channelClosed w \<and>
             channel_has_room w"
  then have u: "users w (task_Username task) = None" and c: "\<not> channelClosed w"
    and r: "channel_has_room w"
    by (simp_all add: GetUserByUsername_def)
  show "fst (user_lookup w task (task_Username task)) = ''unknown_'' @ task_Username task"
    using u by (simp add: user_lookup_fst)
  show "fst (processAnalysisTask w taskID) = Returned"
    by (rule processAnalysisTask_returns)
  show "fst (processBatchAnalysisTask w taskID chat) = Returned"
    using processBatchAnalysisTask_outcome[OF assms, of chat] r by simp
  have sb: "fst (processAnalysisTask_body w taskID) = Returned"
    using c by (simp add: processAnalysisTask_body_outcome)
  have bb: "fst (processBatchAnalysisTask_body w taskID chat) = Returned"
    using processBatchAnalysisTask_body_outcome[OF assms, of chat] c r by simp
  have ss: "snd (processAnalysisTask w taskID) = snd (processAnalysisTask_body w taskID)"
    using sb by (simp add: processAnalysisTask_def recover_task_snd)
  have bs: "snd (processBatchAnalysisTask w taskID chat)
              = snd (processBatchAnalysisTask_body w taskID chat)"
    using bb by (simp add: processBatchAnalysisTask_def recover_task_snd)
  show "map_option task_Status (tasks (snd (processAnalysisTask w taskID)) taskID)
          = Some ANALYSIS_STATUS_RUNNING"
    using processAnalysisTask_body_task[OF assms] c r by (auto simp: ss)
  show "map_option task_Status (tasks (snd (processBatchAnalysisTask w taskID chat)) taskID)
          = Some ANALYSIS_STATUS_RUNNING"
    using processBatchAnalysisTask_body_task[OF assms, of chat] by (auto simp: bs)
  show "\<exists>m. analysisChannel (snd (processAnalysisTask w taskID)) = analysisChannel w @ [m] \<and>
           msg_TaskID m = taskID \<and>
           author_ID (msg_Author m) =
             (case GetUserTweetForAnalysis w (task_Username task) of
                None \<Rightarrow> ''unknown_'' @ task_Username task
              | Some tweet \<Rightarrow> tweet_UserID tweet)"
    using processAnalysisTask_body_channel[OF assms] c r u
    by (simp add: ss GetUserTweetForAnalysis_def user_lookup_fst manual_placeholder_message_def
        manual_tweet_message_def split: option.splits)
  show "\<exists>m. analysisChannel (snd (processBatchAnalysisTask w taskID chat))
             = analysisChannel w @ [m] \<and>
           msg_TaskID m = taskID \<and>
           author_ID (msg_Author m) =
             (case GetUserTweetForAnalysis w (task_Username task) of
                None \<Rightarrow> ''unknown_'' @ task_Username task
              | Some tweet \<Rightarrow> tweet_UserID tweet)"
    using processBatchAnalysisTask_body_channel[OF assms, of chat] c r u
    by (simp add: bs GetUserTweetForAnalysis_def user_lookup_fst batch_placeholder_message_def
        batch_tweet_message_def split: option.splits)
next
  fix user
  assume h: "GetUserByUsername w (task_Username task) = Some user \<and> task_ID task = taskID"
  then have u: "users w (task_Username task) = Some user" and i: "task_ID task = taskID"
    by (simp_all add: GetUserByUsername_def)
  show "fst (user_lookup w task (task_Username task)) = user_ID user"
    using u by (simp add: user_lookup_fst)
  from processAnalysisTask_body_task[OF assms] u i
  obtain t where t: "tasks (snd (processAnalysisTask_body w taskID)) taskID = Some t"
    "task_UserID t = user_ID user"
    by auto
  then show "map_option task_UserID (tasks (snd (processAnalysisTask w taskID)) taskID)
               = Some (user_ID user)"
    by (simp add: processAnalysisTask_def recover_task_snd SetAnalysisTaskError_tasks
        split: outcome.splits)
  from processBatchAnalysisTask_body_task[OF assms, of chat] u i
  obtain t' where t': "tasks (snd (processBatchAnalysisTask_body w taskID chat)) taskID = Some t'"
    "task_UserID t' = user_ID user"
    by auto
  then show "map_option task_UserID (tasks (snd (processBatchAnalysisTask w taskID chat)) taskID)
               = Some (user_ID user)"
    by (simp add: processBatchAnalysisTask_def recover_task_snd SetAnalysisTaskError_tasks
        split: outcome.splits)
qed

theorem unresolved_username_gets_placeholder_witness:
  "tasks service_with_bob ''id0'' = Some bob_task \<and>
   GetUserByUsername service_with_bob (task_Username bob_task) = None \<and>
   \<not> channelClosed service_with_bob \<and> channel_has_room service_with_bob \<and>
   fst (user_lookup service_with_bob bob_task ''bob'') = ''unknown_bob'' \<and>
   fst (processAnalysisTask service_with_bob ''id0'') = Returned \<and>
   fst (processBatchAnalysisTask service_with_bob ''id0'' 42) = Returned \<and>
   (\<exists>m. analysisChannel (snd (processBatchAnalysisTask service_with_bob ''id0'' 42)) = [m] \<and>
        msg_TaskID m = ''id0'' \<and> author_ID (msg_Author m) = ''unknown_bob'') \<and>
   tasks service_with_alice ''id1'' = Some alice_task \<and>
   GetUserByUsername service_with_alice (task_Username alice_task) = Some alice \<and>
   task_ID alice_task = ''id1'' \<and> task_UserID alice_task = [] \<and>
   map_option task_UserID (tasks (snd (processAnalysisTask service_with_alice ''id1'')) ''id1'')
     = Some ''1001'' \<and>
   map_option task_UserID
       (tasks (snd (processBatchAnalysisTask service_with_alice ''id1'' 42)) ''id1'')
     = Some ''1001''"
  using unresolved_username_gets_placeholder[OF service_with_bob_facts(1), of 42]
    unresolved_username_gets_placeholder[OF service_with_alice_facts(1), of 42]
  by (simp add: service_with_bob_facts service_with_alice_facts GetUserByUsername_def
      GetUserTweetForAnalysis_def)

section \<open>Properties of monitorAnalysisProgress\<close>

lemma monitorAnalysisProgress_outcome:
  "fst (monitorAnalysisProgress taskID ticks) = Returned \<or>
   fst (monitorAnalysisProgress taskID ticks) = Blocked"
  by (induction ticks) (auto simp: Let_def split: option.splits prod.splits)

text \<open>Later ticks count only while the monitor has not returned.\<close>

lemma monitorAnalysisProgress_append:
  "monitorAnalysisProgress taskID (before @ rest) =
     (if fst (monitorAnalysisProgress taskID before) = Returned
      then monitorAnalysisProgress taskID before
      else (fst (monitorAnalysisProgress taskID rest),
            snd (monitorAnalysisProgress taskID before) @
            snd (monitorAnalysisProgress taskID rest)))"
  by (induction before) (auto simp: Let_def split: option.splits prod.splits)

lemma monitorAnalysisProgress_returns_iff:
  "fst (monitorAnalysisProgress taskID ticks) = Returned \<longleftrightarrow>
     (\<exists>w \<in> set ticks.
        case GetAnalysisTask w taskID of
          None \<Rightarrow> True
        | Some task \<Rightarrow> task_Status task = ANALYSIS_STATUS_COMPLETED
                        \<or> task_Status task = ANALYSIS_STATUS_FAILED)"
  by (induction ticks) (auto simp: Let_def split: option.splits prod.splits)

lemma bob_ticks_facts:
  "GetAnalysisTask service_with_bob ''id0'' = Some bob_task"
  "task_Status bob_task = ANALYSIS_STATUS_PENDING"
  "GetAnalysisTask service_bob_done ''id0''
     = Some (bob_task\<lparr>task_Status := ANALYSIS_STATUS_COMPLETED\<rparr>)"
  "task_TelegramChatID bob_task = 42"
  "task_MessageID bob_task = 0"
  "GetAnalysisTask example_service ''id0'' = None"
  by (simp_all add: GetAnalysisTask_def service_with_bob_def service_bob_done_def
      example_service_def bob_task_def batch_task_def)

text \<open>
  C6, as the code has it. The monitor returns exactly when some tick reads a terminal
  status or fails to read the task. Before the first tick nothing is edited. At a tick
  that follows ticks which left the monitor polling:
  if the read of the task fails, the monitor returns at once, without an edit at
  that tick or later;
  if the read shows a terminal status, the monitor edits the message once more, with
  the final view of the task, and returns: whatever the store holds at later ticks,
  nothing is edited any more;
  otherwise the monitor edits the message with the progress view and goes on polling.
\<close>

theorem monitorAnalysisProgress_exits:
  "(fst (monitorAnalysisProgress taskID ticks) = Returned \<longleftrightarrow>
      (\<exists>w \<in> set ticks.
         case GetAnalysisTask w taskID of
           None \<Rightarrow> True
         | Some task \<Rightarrow> task_Status task = ANALYSIS_STATUS_COMPLETED
                         \<or> task_Status task = ANALYSIS_STATUS_FAILED)) \<and>
   monitorAnalysisProgress taskID [] = (Blocked, []) \<and>
   (\<forall>before w later.
      ticks = before @ w # later \<and> fst (monitorAnalysisProgress taskID before) = Blocked
      \<longrightarrow>
      (case GetAnalysisTask w taskID of
         None \<Rightarrow>
           monitorAnalysisProgress taskID ticks =
             (Returned, snd (monitorAnalysisProgress taskID before))
       | Some task \<Rightarrow>
           if task_Status task = ANALYSIS_STATUS_COMPLETED
              \<or> task_Status task = ANALYSIS_STATUS_FAILED
           then monitorAnalysisProgress taskID ticks =
                  (Returned,
                   snd (monitorAnalysisProgress taskID before) @
                   [EditMessage (task_TelegramChatID task) (task_MessageID task)
                      (if task_Status task = ANALYSIS_STATUS_FAILED then progress_failed task
                       else progress_completed task)])
           else monitorAnalysisProgress taskID (before @ [w]) =
                  (Blocked,
                   snd (monitorAnalysisProgress taskID before) @
                   [EditMessage (task_TelegramChatID task) (task_MessageID task)
                      (formatAnalysisProgress w task)])))"
proof (intro conjI allI impI)
  show "fst (monitorAnalysisProgress taskID ticks) = Returned \<longleftrightarrow>
      (\<exists>w \<in> set ticks.
         case GetAnalysisTask w taskID of
           None \<Rightarrow> True
         | Some task \<Rightarrow> task_Status task = ANALYSIS_STATUS_COMPLETED
                         \<or> task_Status task = ANALYSIS_STATUS_FAILED)"
    by (rule monitorAnalysisProgress_returns_iff)
  show "monitorAnalysisProgress taskID [] = (Blocked, [])"
    by simp
next
  fix before w later
  assume h: "ticks = before @ w # later \<and>
             fst (monitorAnalysisProgress taskID before) = Blocked"
  show "case GetAnalysisTask w taskID of
         None \<Rightarrow>
           monitorAnalysisProgress taskID ticks =
             (Returned, snd (monitorAnalysisProgress taskID before))
       | Some task \<Rightarrow>
           if task_Status task = ANALYSIS_STATUS_COMPLETED
              \<or> task_Status task = ANALYSIS_STATUS_FAILED
           then monitorAnalysisProgress taskID ticks =
                  (Returned,
                   snd (monitorAnalysisProgress taskID before) @
                   [EditMessage (task_TelegramChatID task) (task_MessageID task)
                      (if task_Status task = ANALYSIS_STATUS_FAILED then progress_failed task
                       else progress_completed task)])
           else monitorAnalysisProgress taskID (before @ [w]) =
                  (Blocked,
                   snd (monitorAnalysisProgress taskID before) @
                   [EditMessage (task_TelegramChatID task) (task_MessageID task)
                      (formatAnalysisProgress w task)])"
  proof (cases "GetAnalysisTask w taskID")
    case None
    then have "monitorAnalysisProgress taskID (w # later) = (Returned, [])"
      by simp
    with h None show ?thesis
      by (simp add: monitorAnalysisProgress_append)
  next
    case (Some task)
    show ?thesis
    proof (cases "task_Status task = ANALYSIS_STATUS_COMPLETED
                  \<or> task_Status task = ANALYSIS_STATUS_FAILED")
      case True
      with Some have "monitorAnalysisProgress taskID (w # later) =
        (Returned,
         [EditMessage (task_TelegramChatID task) (task_MessageID task)
            (if task_Status task = ANALYSIS_STATUS_FAILED then progress_failed task
             else progress_completed task)])"
        by (auto simp: Let_def formatAnalysisProgress_def)
      with h Some True show ?thesis
        by (simp add: monitorAnalysisProgress_append)
    next
      case False
      with Some have "monitorAnalysisProgress taskID [w] =
        (Blocked,
         [EditMessage (task_TelegramChatID task) (task_MessageID task)
            (formatAnalysisProgress w task)])"
        by (simp add: Let_def)
      with h Some False show ?thesis
        by (simp add: monitorAnalysisProgress_append)
    qed
  qed
qed

theorem monitorAnalysisProgress_exits_witness:
  "fst (monitorAnalysisProgress ''id0'' [service_with_bob]) = Blocked \<and>
   GetAnalysisTask service_bob_done ''id0''
     = Some (bob_task\<lparr>task_Status := ANALYSIS_STATUS_COMPLETED\<rparr>) \<and>
   monitorAnalysisProgress ''id0'' [service_with_bob, service_bob_done, service_with_bob] =
     (Returned,
      [EditMessage 42 0 (formatAnalysisProgress service_with_bob bob_task),
       EditMessage 42 0
         (progress_completed (bob_task\<lparr>task_Status := ANALYSIS_STATUS_COMPLETED\<rparr>))]) \<and>
   GetAnalysisTask example_service ''id0'' = None \<and>
   monitorAnalysisProgress ''id0'' [service_with_bob, example_service, service_with_bob] =
     (Returned, [EditMessage 42 0 (formatAnalysisProgress service_with_bob bob_task)])"
proof -
  have b: "monitorAnalysisProgress ''id0'' [service_with_bob]
             = (Blocked, [EditMessage 42 0 (formatAnalysisProgress service_with_bob bob_task)])"
    by (simp add: bob_ticks_facts Let_def)
  have d: "[service_with_bob, service_bob_done, service_with_bob]
             = [service_with_bob] @ service_bob_done # [service_with_bob]"
    and e: "[service_with_bob, example_service, service_with_bob]
             = [service_with_bob] @ example_service # [service_with_bob]"
    by simp_all
  have f: "fst (monitorAnalysisProgress ''id0'' [service_with_bob]) = Blocked"
    using b by simp
  note tick = monitorAnalysisProgress_exits [THEN conjunct2, THEN conjunct2, rule_format]
  from tick [OF conjI [OF d f]] tick [OF conjI [OF e f]] b show ?thesis
    by (simp add: bob_ticks_facts)
qed

text \<open>
  C6, with a terminal status as the only exit of the loop, does not hold. On the
  service without the task the read fails at the first tick and the monitor returns,
  with no edit and no terminal status seen.
\<close>

theorem monitorAnalysisProgress_exits_on_failed_read:
  "GetAnalysisTask example_service ''id0'' = None \<and>
   monitorAnalysisProgress ''id0'' [example_service] = (Returned, [])"
  by (simp add: bob_ticks_facts)

section \<open>Properties of handleBatchAnalyzeCommand\<close>

subsection \<open>The first loop keeps every occurrence\<close>



subsection \<open>One iteration of the second loop\<close>

lemma generateNotificationID_frame [simp]:
  "users (snd (generateNotificationID w)) = users w"
  "validCachedAnalysis (snd (generateNotificationID w)) = validCachedAnalysis w"
  "cachedAnalysis (snd (generateNotificationID w)) = cachedAnalysis w"
  "createRejected (snd (generateNotificationID w)) = createRejected w"
  "analysisChannel (snd (generateNotificationID w)) = analysisChannel w"
  "tasks (snd (generateNotificationID w)) = tasks w"
  by (simp_all add: generateNotificationID_def)

lemma CreateAnalysisTask_frame:
  "CreateAnalysisTask w task = Some w' \<Longrightarrow>
     users w' = users w \<and> validCachedAnalysis w' = validCachedAnalysis w \<and>
     cachedAnalysis w' = cachedAnalysis w \<and> createRejected w' = createRejected w \<and>
     analysisChannel w' = analysisChannel w \<and> tasks w' = (tasks w)(task_ID task \<mapsto> task)"
  by (auto simp: CreateAnalysisTask_def split: if_splits)

lemma batch_iteration_frame [simp]:
  "users (service (batch_iteration chatID p u)) = users (service p)"
  "validCachedAnalysis (service (batch_iteration chatID p u)) = validCachedAnalysis (service p)"
  "cachedAnalysis (service (batch_iteration chatID p u)) = cachedAnalysis (service p)"
  "createRejected (service (batch_iteration chatID p u)) = createRejected (service p)"
  "analysisChannel (service (batch_iteration chatID p u)) = analysisChannel (service p)"
  by (auto simp: batch_iteration_def Let_def split_beta dest: CreateAnalysisTask_frame
      split: option.splits)

lemma has_cached_frame:
  "users w' = users w \<Longrightarrow> validCachedAnalysis w' = validCachedAnalysis w \<Longrightarrow>
   has_cached w' (GetUserByUsername w' u) = has_cached w (GetUserByUsername w u)"
  by (simp add: has_cached_def GetUserByUsername_def HasValidCachedAnalysis_def
      split: option.splits)

lemma batch_iteration_cached_frame [simp]:
  "has_cached (service (batch_iteration chatID p u))
     (GetUserByUsername (service (batch_iteration chatID p u)) v)
   = has_cached (service p) (GetUserByUsername (service p) v)"
  by (rule has_cached_frame) simp_all

text \<open>A username with a cached analysis: a notification, and the service as it was.\<close>

lemma batch_iteration_cached:
  assumes "GetUserByUsername (service p) username = Some user"
    and "HasValidCachedAnalysis (service p) (user_ID user)"
  shows "batch_iteration chatID p username =
           p\<lparr>skippedCount := skippedCount p + 1,
             performed := performed p @
               (case GetCachedAnalysis (service p) (user_ID user) of
                  None \<Rightarrow> []
                | Some cachedResult \<Rightarrow>
                    [Go (Run_sendCachedBatchNotification username (user_ID user)
                           cachedResult chatID)])\<rparr>"
  using assms by (simp add: batch_iteration_def Let_def has_cached_def)

text \<open>What an iteration adds to the effects, and what it does to the task table.\<close>

lemma batch_iteration_performed:
  "\<exists>new. performed (batch_iteration chatID p u) = performed p @ new \<and>
     (if has_cached (service p) (GetUserByUsername (service p) u)
      then service (batch_iteration chatID p u) = service p \<and>
           (case GetUserByUsername (service p) u of
              None \<Rightarrow> new = []
            | Some user \<Rightarrow>
                (case GetCachedAnalysis (service p) (user_ID user) of
                   None \<Rightarrow> new = []
                 | Some r \<Rightarrow> new = [Go (Run_sendCachedBatchNotification u (user_ID user) r chatID)]))
      else new = [] \<or>
           (\<exists>taskID t. new = [Go (Run_processBatchAnalysisTask taskID chatID), Sleep_ms 150] \<and>
                       tasks (service (batch_iteration chatID p u)) taskID = Some t \<and>
                       task_Username t = u))"
  by (auto simp: batch_iteration_def Let_def split_beta batch_task_def
      dest!: CreateAnalysisTask_frame split: option.splits)

lemma batch_iteration_tasks:
  "tasks (service (batch_iteration chatID p u)) taskID = tasks (service p) taskID \<or>
   (\<exists>t. tasks (service (batch_iteration chatID p u)) taskID = Some t \<and>
        task_Username t = u \<and> \<not> has_cached (service p) (GetUserByUsername (service p) u))"
  by (auto simp: batch_iteration_def Let_def split_beta batch_task_def
      dest!: CreateAnalysisTask_frame split: option.splits)


subsection \<open>The second loop\<close>

lemma batch_loop_frame [simp]:
  "users (service (batch_loop chatID p us)) = users (service p)"
  "validCachedAnalysis (service (batch_loop chatID p us)) = validCachedAnalysis (service p)"
  "cachedAnalysis (service (batch_loop chatID p us)) = cachedAnalysis (service p)"
  "createRejected (service (batch_loop chatID p us)) = createRejected (service p)"
  "analysisChannel (service (batch_loop chatID p us)) = analysisChannel (service p)"
  by (induction us arbitrary: p) simp_all


lemma batch_loop_tasks:
  "tasks (service (batch_loop chatID p us)) taskID = tasks (service p) taskID \<or>
   (\<exists>t. tasks (service (batch_loop chatID p us)) taskID = Some t \<and>
        \<not> has_cached (service p) (GetUserByUsername (service p) (task_Username t)))"
proof (induction us arbitrary: p)
  case Nil
  show ?case by simp
next
  case (Cons u us)
  from Cons.IH[of "batch_iteration chatID p u"] batch_iteration_tasks[of chatID p u taskID]
  show ?case by auto
qed


text \<open>
  The effects of the loop. A notification for a username is one for each of its
  occurrences when the store gives the cached result; a runner is started only for a
  task that the loop has created, and no such task is for a username with a cached
  analysis.
\<close>

lemma batch_loop_performed:
  "\<exists>new. performed (batch_loop chatID p us) = performed p @ new \<and>
     (\<forall>user r. GetUserByUsername (service p) u = Some user \<and>
        HasValidCachedAnalysis (service p) (user_ID user) \<and>
        GetCachedAnalysis (service p) (user_ID user) = Some r \<longrightarrow>
        count_list new (Go (Run_sendCachedBatchNotification u (user_ID user) r chatID))
          = count_list us u) \<and>
     (\<forall>v uid r c. Go (Run_sendCachedBatchNotification v uid r c) \<in> set new \<longrightarrow>
        v \<in> set us \<and> c = chatID \<and>
        (\<exists>user. GetUserByUsername (service p) v = Some user \<and> uid = user_ID user \<and>
                HasValidCachedAnalysis (service p) uid \<and>
                GetCachedAnalysis (service p) uid = Some r)) \<and>
     (\<forall>taskID c. Go (Run_processBatchAnalysisTask taskID c) \<in> set new \<longrightarrow>
        c = chatID \<and>
        (\<exists>t. tasks (service (batch_loop chatID p us)) taskID = Some t \<and>
             \<not> has_cached (service p) (GetUserByUsername (service p) (task_Username t))))"
proof (induction us arbitrary: p)
  case Nil
  show ?case by simp
next
  case (Cons v us)
  let ?p1 = "batch_iteration chatID p v"
  let ?p2 = "batch_loop chatID ?p1 us"
  have fr: "GetUserByUsername (service ?p1) = GetUserByUsername (service p)"
    "HasValidCachedAnalysis (service ?p1) = HasValidCachedAnalysis (service p)"
    "GetCachedAnalysis (service ?p1) = GetCachedAnalysis (service p)"
    "has_cached (service ?p1) = has_cached (service p)"
    by (auto simp: GetUserByUsername_def HasValidCachedAnalysis_def GetCachedAnalysis_def
        has_cached_def fun_eq_iff split: option.splits)
  from batch_iteration_performed[of chatID p v]
  obtain new1 where n1: "performed ?p1 = performed p @ new1"
    and s1: "if has_cached (service p) (GetUserByUsername (service p) v)
      then service ?p1 = service p \<and>
           (case GetUserByUsername (service p) v of
              None \<Rightarrow> new1 = []
            | Some user \<Rightarrow>
                (case GetCachedAnalysis (service p) (user_ID user) of
                   None \<Rightarrow> new1 = []
                 | Some r \<Rightarrow> new1 = [Go (Run_sendCachedBatchNotification v (user_ID user) r chatID)]))
      else new1 = [] \<or>
           (\<exists>taskID t. new1 = [Go (Run_processBatchAnalysisTask taskID chatID), Sleep_ms 150] \<and>
                       tasks (service ?p1) taskID = Some t \<and> task_Username t = v)"
    by blast
  from Cons.IH[of ?p1]
  obtain new2 where n2: "performed ?p2 = performed ?p1 @ new2"
    and c2: "\<forall>user r. GetUserByUsername (service p) u = Some user \<and>
        HasValidCachedAnalysis (service p) (user_ID user) \<and>
        GetCachedAnalysis (service p) (user_ID user) = Some r \<longrightarrow>
        count_list new2 (Go (Run_sendCachedBatchNotification u (user_ID user) r chatID))
          = count_list us u"
    and g2: "\<forall>v uid r c. Go (Run_sendCachedBatchNotification v uid r c) \<in> set new2 \<longrightarrow>
        v \<in> set us \<and> c = chatID \<and>
        (\<exists>user. GetUserByUsername (service p) v = Some user \<and> uid = user_ID user \<and>
                HasValidCachedAnalysis (service p) uid \<and>
                GetCachedAnalysis (service p) uid = Some r)"
    and r2: "\<forall>taskID c. Go (Run_processBatchAnalysisTask taskID c) \<in> set new2 \<longrightarrow>
        c = chatID \<and>
        (\<exists>t. tasks (service ?p2) taskID = Some t \<and>
             \<not> has_cached (service p) (GetUserByUsername (service p) (task_Username t)))"
    unfolding fr by blast
  have a: "performed ?p2 = performed p @ (new1 @ new2)"
    using n1 n2 by simp
  have b: "\<forall>user r. GetUserByUsername (service p) u = Some user \<and>
        HasValidCachedAnalysis (service p) (user_ID user) \<and>
        GetCachedAnalysis (service p) (user_ID user) = Some r \<longrightarrow>
        count_list (new1 @ new2) (Go (Run_sendCachedBatchNotification u (user_ID user) r chatID))
          = count_list (v # us) u"
    using s1 c2
    by (auto simp: has_cached_def split: if_splits option.splits)
  have c: "\<forall>w uid r c. Go (Run_sendCachedBatchNotification w uid r c) \<in> set (new1 @ new2) \<longrightarrow>
        w \<in> set (v # us) \<and> c = chatID \<and>
        (\<exists>user. GetUserByUsername (service p) w = Some user \<and> uid = user_ID user \<and>
                HasValidCachedAnalysis (service p) uid \<and>
                GetCachedAnalysis (service p) uid = Some r)"
    using s1 g2
    by (auto simp: has_cached_def split: if_splits option.splits)
  have d: "\<forall>taskID c. Go (Run_processBatchAnalysisTask taskID c) \<in> set (new1 @ new2) \<longrightarrow>
        c = chatID \<and>
        (\<exists>t. tasks (service ?p2) taskID = Some t \<and>
             \<not> has_cached (service p) (GetUserByUsername (service p) (task_Username t)))"
  proof (intro allI impI)
    fix taskID c
    assume "Go (Run_processBatchAnalysisTask taskID c) \<in> set (new1 @ new2)"
    then consider "Go (Run_processBatchAnalysisTask taskID c) \<in> set new1"
      | "Go (Run_processBatchAnalysisTask taskID c) \<in> set new2"
      by auto
    then show "c = chatID \<and>
        (\<exists>t. tasks (service ?p2) taskID = Some t \<and>
             \<not> has_cached (service p) (GetUserByUsername (service p) (task_Username t)))"
    proof cases
      case 1
      with s1 obtain t where t: "c = chatID" "tasks (service ?p1) taskID = Some t"
        "task_Username t = v" "\<not> has_cached (service p) (GetUserByUsername (service p) v)"
        by (auto split: if_splits option.splits)
      from batch_loop_tasks[of chatID ?p1 us taskID] t
      show ?thesis by auto
    next
      case 2
      with r2 show ?thesis by blast
    qed
  qed
  have e: "batch_loop chatID p (v # us) = ?p2" by simp
  show ?case
    unfolding e by (intro exI[of _ "new1 @ new2"] conjI) (rule a b c d)+
qed

text \<open>The loop, one occurrence after the other.\<close>

lemma batch_loop_append:
  "batch_loop chatID p (xs @ ys) = batch_loop chatID (batch_loop chatID p xs) ys"
  by (induction xs arbitrary: p) simp_all

lemma batch_loop_snoc:
  "batch_loop chatID p (xs @ [u]) = batch_iteration chatID (batch_loop chatID p xs) u"
  by (simp add: batch_loop_append)

text \<open>An iteration, written out.\<close>

lemma batch_iteration_explicit:
  "batch_iteration chatID p u =
     (let s = service p in
      if (case GetUserByUsername s u of
            None \<Rightarrow> False
          | Some user \<Rightarrow> HasValidCachedAnalysis s (user_ID user))
      then p\<lparr>skippedCount := skippedCount p + 1,
             performed := performed p @
               (case GetUserByUsername s u of
                  None \<Rightarrow> []
                | Some user \<Rightarrow>
                    (case GetCachedAnalysis s (user_ID user) of
                       None \<Rightarrow> []
                     | Some r \<Rightarrow>
                         [Go (Run_sendCachedBatchNotification u (user_ID user) r chatID)]))\<rparr>
      else
        let taskID = randomIDs s (idsDrawn s);
            s1 = s\<lparr>idsDrawn := Suc (idsDrawn s)\<rparr>;
            task = \<lparr>task_ID = taskID, task_Username = u,
                    task_UserID = (case GetUserByUsername s u of
                                     None \<Rightarrow> []
                                   | Some user \<Rightarrow> user_ID user),
                    task_Status = ANALYSIS_STATUS_PENDING,
                    task_CurrentStep = ANALYSIS_STEP_INIT,
                    task_ProgressText = ''Queued for batch analysis...'',
                    task_ErrorMessage = [],
                    task_TelegramChatID = chatID,
                    task_MessageID = 0,
                    task_StartedAt = clock s\<rparr>
        in if createRejected s task then p\<lparr>service := s1\<rparr>
           else p\<lparr>analysisCount := analysisCount p + 1,
                  performed := performed p @
                    [Go (Run_processBatchAnalysisTask taskID chatID), Sleep_ms 150],
                  service := s1\<lparr>tasks := (tasks s)(taskID \<mapsto> task)\<rparr>\<rparr>)"
  by (simp add: batch_iteration_def Let_def has_cached_def generateNotificationID_def
      batch_task_def CreateAnalysisTask_def)

text \<open>Finding a part of a text that is put together with \<open>@\<close>.\<close>

lemma sublist_here: "sublist x (x @ ys)"
  by (rule sublist_append_rightI)

lemma sublist_further: "sublist x ys \<Longrightarrow> sublist x (zs @ ys)"
  unfolding sublist_def by (metis append.assoc)

subsection \<open>The handler\<close>

lemma validate_usernames_Nil: "validate_usernames [] = ([], [])"
  by (simp add: validate_usernames_def strings_TrimSpace_def strings_TrimPrefix_def)


lemma example_service_cached:
  "GetUserByUsername example_service ''alice'' = Some alice"
  "GetUserByUsername example_service ''bob'' = None"
  "HasValidCachedAnalysis example_service (user_ID alice)"
  "GetCachedAnalysis example_service (user_ID alice) = Some alice_cached"
  "has_cached example_service (GetUserByUsername example_service ''alice'')"
  "\<not> has_cached example_service (GetUserByUsername example_service ''bob'')"
  "\<not> createRejected example_service t"
  "has_cached example_service (Some alice)"
  "\<not> has_cached example_service None"
  "user_ID alice = ''1001''"
  "HasValidCachedAnalysis example_service ''1001''"
  "GetCachedAnalysis example_service ''1001'' = Some alice_cached"
  by (simp_all add: example_service_def GetUserByUsername_def HasValidCachedAnalysis_def
      GetCachedAnalysis_def has_cached_def alice_def)



text \<open>
  C5. When more than 20 usernames are valid the handler sends one message, the
  rejection (the usage text if the first argument is blank), and leaves the service as
  it was: no task record is created, nothing is enqueued, no goroutine is started.
\<close>

theorem handleBatchAnalyzeCommand_rejects_more_than_20:
  "20 < length (fst (validate_usernames args)) \<Longrightarrow>
     \<exists>first others. args = first # others \<and>
       handleBatchAnalyzeCommand w chatID args =
         ([SendMessage chatID
             (if strings_TrimSpace first = [] then batch_usage
              else batch_too_many (length (fst (validate_usernames args))))],
          w)"
  by (cases args)
     (auto simp: validate_usernames_Nil handleBatchAnalyzeCommand_def Let_def split_beta)

theorem handleBatchAnalyzeCommand_rejects_more_than_20_witness:
  "20 < length (fst (validate_usernames [''a,b,c,d,e,f,g,h,i,j,k,l,m,n,o,p,q,r,s,t,u''])) \<and>
   handleBatchAnalyzeCommand example_service 42 [''a,b,c,d,e,f,g,h,i,j,k,l,m,n,o,p,q,r,s,t,u'']
     = ([SendMessage 42 (batch_too_many 21)], example_service)"
proof -
  have t: "strings_TrimSpace ''a,b,c,d,e,f,g,h,i,j,k,l,m,n,o,p,q,r,s,t,u'' \<noteq> []"
    by code_simp
  have l: "length (fst (validate_usernames [''a,b,c,d,e,f,g,h,i,j,k,l,m,n,o,p,q,r,s,t,u'']))
             = 21"
    by code_simp
  from handleBatchAnalyzeCommand_rejects_more_than_20
         [of "[''a,b,c,d,e,f,g,h,i,j,k,l,m,n,o,p,q,r,s,t,u'']" example_service 42]
  show ?thesis
    unfolding l using t by simp
qed


lemma showNat_0: "showNat 0 = ''0''"
  by code_simp

lemma example_service_ids:
  "idsDrawn example_service = 0"
  "randomIDs example_service 0 = ''id0''"
  "clock example_service = 0"
  "tasks example_service = Map.empty"
  "analysisChannel example_service = []"
  by (simp_all add: example_service_def showNat_0)

lemma example_iteration_alice:
  "service p = example_service \<Longrightarrow>
   batch_iteration 42 p ''alice'' =
     p\<lparr>skippedCount := skippedCount p + 1,
       performed := performed p @
         [Go (Run_sendCachedBatchNotification ''alice'' ''1001'' alice_cached 42)]\<rparr>"
  using batch_iteration_cached[of p "''alice''" alice 42]
  by (simp add: example_service_cached)

lemma example_iteration_bob:
  "service p = example_service \<Longrightarrow>
   batch_iteration 42 p ''bob'' =
     p\<lparr>analysisCount := analysisCount p + 1,
       performed := performed p @ [Go (Run_processBatchAnalysisTask ''id0'' 42), Sleep_ms 150],
       service := example_service
         \<lparr>idsDrawn := Suc 0,
          tasks := [''id0'' \<mapsto>
            \<lparr>task_ID = ''id0'', task_Username = ''bob'', task_UserID = [],
             task_Status = ANALYSIS_STATUS_PENDING,
             task_CurrentStep = ANALYSIS_STEP_INIT,
             task_ProgressText = ''Queued for batch analysis...'',
             task_ErrorMessage = [], task_TelegramChatID = 42, task_MessageID = 0,
             task_StartedAt = 0\<rparr>]\<rparr>\<rparr>"
  by (simp add: batch_iteration_explicit Let_def example_service_cached example_service_ids)





text \<open>
  C4, as the code has it. Take a username that the store resolves to a user with a
  valid cached analysis. At each occurrence of the username in the list the loop adds
  one to the skipped count and starts one notification of the cached result to the
  chat of the command (none if the result cannot be read), and changes nothing else:
  no task record, no task ID drawn, nothing enqueued. Over the whole loop the
  notifications for the username are as many as its occurrences (none if the result
  cannot be read), all with that user, result and chat; no task record is created
  for the username, no runner is started for a task of that username, and the channel
  is left alone. A notification sends exactly one message to its chat, and the text
  shows the username and the status, type, confidence and profile of the result.
\<close>

theorem cached_user_is_notified_per_occurrence:
  assumes "GetUserByUsername (service p) username = Some user"
    and "HasValidCachedAnalysis (service p) (user_ID user)"
  shows "(\<forall>before later. usernames = before @ username # later \<longrightarrow>
            batch_loop chatID p (before @ [username]) =
              (batch_loop chatID p before)
                \<lparr>skippedCount := skippedCount (batch_loop chatID p before) + 1,
                 performed := performed (batch_loop chatID p before) @
                   (case GetCachedAnalysis (service p) (user_ID user) of
                      None \<Rightarrow> []
                    | Some r \<Rightarrow>
                        [Go (Run_sendCachedBatchNotification username (user_ID user) r
                               chatID)])\<rparr>) \<and>
         (\<exists>new. performed (batch_loop chatID p usernames) = performed p @ new \<and>
            (\<forall>uid r c.
               count_list new (Go (Run_sendCachedBatchNotification username uid r c)) =
                 (if uid = user_ID user \<and> c = chatID \<and>
                     GetCachedAnalysis (service p) (user_ID user) = Some r
                  then count_list usernames username else 0)) \<and>
            (\<forall>taskID c. Go (Run_processBatchAnalysisTask taskID c) \<in> set new \<longrightarrow>
               (\<exists>t. tasks (service (batch_loop chatID p usernames)) taskID = Some t \<and>
                    task_Username t \<noteq> username))) \<and>
         (\<forall>taskID t. tasks (service (batch_loop chatID p usernames)) taskID = Some t \<and>
            task_Username t = username \<longrightarrow> tasks (service p) taskID = Some t) \<and>
         analysisChannel (service (batch_loop chatID p usernames)) = analysisChannel (service p) \<and>
         (\<forall>w' uid r c. \<exists>m.
            sendCachedBatchNotification w' username uid r c = [SendMessage c m] \<and>
            sublist username m \<and>
            sublist (if resp_IsFUDUser r then ''FUD User Detected'' else ''Clean User'') m \<and>
            sublist (if \<not> resp_IsFUDUser r then ''clean_user'' else resp_FUDType r) m \<and>
            sublist (sprintf_percent w' (resp_FUDProbability r)) m \<and>
            sublist (resp_UserSummary r) m)"
proof -
  have hc: "has_cached (service p) (GetUserByUsername (service p) username)"
    using assms by (simp add: has_cached_def)
  have per: "\<forall>before later. usernames = before @ username # later \<longrightarrow>
            batch_loop chatID p (before @ [username]) =
              (batch_loop chatID p before)
                \<lparr>skippedCount := skippedCount (batch_loop chatID p before) + 1,
                 performed := performed (batch_loop chatID p before) @
                   (case GetCachedAnalysis (service p) (user_ID user) of
                      None \<Rightarrow> []
                    | Some r \<Rightarrow>
                        [Go (Run_sendCachedBatchNotification username (user_ID user) r
                               chatID)])\<rparr>"
  proof (intro allI impI)
    fix before later
    let ?q = "batch_loop chatID p before"
    have 1: "GetUserByUsername (service ?q) username = Some user"
      using assms(1) by (simp add: GetUserByUsername_def)
    have 2: "HasValidCachedAnalysis (service ?q) (user_ID user)"
      using assms(2) by (simp add: HasValidCachedAnalysis_def)
    have 3: "GetCachedAnalysis (service ?q) (user_ID user)
               = GetCachedAnalysis (service p) (user_ID user)"
      by (simp add: GetCachedAnalysis_def)
    show "batch_loop chatID p (before @ [username]) =
              ?q\<lparr>skippedCount := skippedCount ?q + 1,
                 performed := performed ?q @
                   (case GetCachedAnalysis (service p) (user_ID user) of
                      None \<Rightarrow> []
                    | Some r \<Rightarrow>
                        [Go (Run_sendCachedBatchNotification username (user_ID user) r
                               chatID)])\<rparr>"
      unfolding batch_loop_snoc using batch_iteration_cached[OF 1 2, of chatID]
      by (simp add: 3)
  qed
  from batch_loop_performed[of chatID p usernames username]
  obtain new where n: "performed (batch_loop chatID p usernames) = performed p @ new"
    and c: "\<forall>user r. GetUserByUsername (service p) username = Some user \<and>
        HasValidCachedAnalysis (service p) (user_ID user) \<and>
        GetCachedAnalysis (service p) (user_ID user) = Some r \<longrightarrow>
        count_list new (Go (Run_sendCachedBatchNotification username (user_ID user) r chatID))
          = count_list usernames username"
    and g: "\<forall>v uid r c. Go (Run_sendCachedBatchNotification v uid r c) \<in> set new \<longrightarrow>
        v \<in> set usernames \<and> c = chatID \<and>
        (\<exists>user. GetUserByUsername (service p) v = Some user \<and> uid = user_ID user \<and>
                HasValidCachedAnalysis (service p) uid \<and>
                GetCachedAnalysis (service p) uid = Some r)"
    and r: "\<forall>taskID c. Go (Run_processBatchAnalysisTask taskID c) \<in> set new \<longrightarrow>
        c = chatID \<and>
        (\<exists>t. tasks (service (batch_loop chatID p usernames)) taskID = Some t \<and>
             \<not> has_cached (service p) (GetUserByUsername (service p) (task_Username t)))"
    by blast
  have c': "\<forall>uid r c.
               count_list new (Go (Run_sendCachedBatchNotification username uid r c)) =
                 (if uid = user_ID user \<and> c = chatID \<and>
                     GetCachedAnalysis (service p) (user_ID user) = Some r
                  then count_list usernames username else 0)"
  proof (intro allI)
    fix uid r c
    show "count_list new (Go (Run_sendCachedBatchNotification username uid r c)) =
                 (if uid = user_ID user \<and> c = chatID \<and>
                     GetCachedAnalysis (service p) (user_ID user) = Some r
                  then count_list usernames username else 0)"
    proof (cases "uid = user_ID user \<and> c = chatID \<and>
                     GetCachedAnalysis (service p) (user_ID user) = Some r")
      case True
      with c assms show ?thesis by simp
    next
      case False
      have "Go (Run_sendCachedBatchNotification username uid r c) \<notin> set new"
      proof
        assume "Go (Run_sendCachedBatchNotification username uid r c) \<in> set new"
        with g assms(1) have "uid = user_ID user \<and> c = chatID \<and>
                     GetCachedAnalysis (service p) (user_ID user) = Some r"
          by fastforce
        with False show False by simp
      qed
      then have "count_list new (Go (Run_sendCachedBatchNotification username uid r c)) = 0"
        by (simp add: count_list_0_iff)
      then show ?thesis unfolding if_not_P[OF False] .
    qed
  qed
  have r': "\<forall>taskID c. Go (Run_processBatchAnalysisTask taskID c) \<in> set new \<longrightarrow>
               (\<exists>t. tasks (service (batch_loop chatID p usernames)) taskID = Some t \<and>
                    task_Username t \<noteq> username)"
    using r hc by metis
  have t: "\<forall>taskID t. tasks (service (batch_loop chatID p usernames)) taskID = Some t \<and>
            task_Username t = username \<longrightarrow> tasks (service p) taskID = Some t"
  proof (intro allI impI)
    fix taskID t
    assume h: "tasks (service (batch_loop chatID p usernames)) taskID = Some t \<and>
            task_Username t = username"
    with batch_loop_tasks[of chatID p usernames taskID] hc
    show "tasks (service p) taskID = Some t" by auto
  qed
  have m: "\<forall>w' uid r c. \<exists>m.
            sendCachedBatchNotification w' username uid r c = [SendMessage c m] \<and>
            sublist username m \<and>
            sublist (if resp_IsFUDUser r then ''FUD User Detected'' else ''Clean User'') m \<and>
            sublist (if \<not> resp_IsFUDUser r then ''clean_user'' else resp_FUDType r) m \<and>
            sublist (sprintf_percent w' (resp_FUDProbability r)) m \<and>
            sublist (resp_UserSummary r) m"
  proof (intro allI)
    fix w' uid r c
    show "\<exists>m.
            sendCachedBatchNotification w' username uid r c = [SendMessage c m] \<and>
            sublist username m \<and>
            sublist (if resp_IsFUDUser r then ''FUD User Detected'' else ''Clean User'') m \<and>
            sublist (if \<not> resp_IsFUDUser r then ''clean_user'' else resp_FUDType r) m \<and>
            sublist (sprintf_percent w' (resp_FUDProbability r)) m \<and>
            sublist (resp_UserSummary r) m"
      by (intro exI[of _ "cached_message w' username r"] conjI)
         (simp add: sendCachedBatchNotification_def,
          (unfold cached_message_def Let_def,
           (rule sublist_here | rule sublist_further)+)+)
  qed
  from n c' r' have "\<exists>new. performed (batch_loop chatID p usernames) = performed p @ new \<and>
            (\<forall>uid r c.
               count_list new (Go (Run_sendCachedBatchNotification username uid r c)) =
                 (if uid = user_ID user \<and> c = chatID \<and>
                     GetCachedAnalysis (service p) (user_ID user) = Some r
                  then count_list usernames username else 0)) \<and>
            (\<forall>taskID c. Go (Run_processBatchAnalysisTask taskID c) \<in> set new \<longrightarrow>
               (\<exists>t. tasks (service (batch_loop chatID p usernames)) taskID = Some t \<and>
                    task_Username t \<noteq> username))"
    by blast
  with per t m show ?thesis
    by simp
qed

lemma alice_alice_bob_loop:
  "batch_loop 42
     \<lparr>analysisCount = 0, skippedCount = 0, performed = [], service = example_service\<rparr>
     [''alice'', ''alice'', ''bob''] =
   \<lparr>analysisCount = 1, skippedCount = 2,
    performed =
      [Go (Run_sendCachedBatchNotification ''alice'' ''1001'' alice_cached 42),
       Go (Run_sendCachedBatchNotification ''alice'' ''1001'' alice_cached 42),
       Go (Run_processBatchAnalysisTask ''id0'' 42),
       Sleep_ms 150],
    service = example_service
      \<lparr>idsDrawn := Suc 0,
       tasks := [''id0'' \<mapsto>
         \<lparr>task_ID = ''id0'', task_Username = ''bob'', task_UserID = [],
          task_Status = ANALYSIS_STATUS_PENDING,
          task_CurrentStep = ANALYSIS_STEP_INIT,
          task_ProgressText = ''Queued for batch analysis...'',
          task_ErrorMessage = [], task_TelegramChatID = 42, task_MessageID = 0,
          task_StartedAt = 0\<rparr>]\<rparr>\<rparr>"
  by (simp add: example_iteration_alice example_iteration_bob)

theorem cached_user_is_notified_per_occurrence_witness:
  "GetUserByUsername example_service ''alice'' = Some alice \<and>
   HasValidCachedAnalysis example_service (user_ID alice) \<and>
   GetCachedAnalysis example_service (user_ID alice) = Some alice_cached \<and>
   batch_loop 42
     \<lparr>analysisCount = 0, skippedCount = 0, performed = [], service = example_service\<rparr>
     [''alice''] =
   \<lparr>analysisCount = 0, skippedCount = 1,
    performed = [Go (Run_sendCachedBatchNotification ''alice'' (user_ID alice) alice_cached 42)],
    service = example_service\<rparr> \<and>
   count_list
     (performed (batch_loop 42
        \<lparr>analysisCount = 0, skippedCount = 0, performed = [], service = example_service\<rparr>
        [''alice'', ''bob'']))
     (Go (Run_sendCachedBatchNotification ''alice'' (user_ID alice) alice_cached 42)) = 1 \<and>
   \<not> (\<exists>taskID t.
      tasks (service (batch_loop 42
              \<lparr>analysisCount = 0, skippedCount = 0, performed = [], service = example_service\<rparr>
              [''alice'', ''bob''])) taskID = Some t \<and> task_Username t = ''alice'') \<and>
   analysisChannel (service (batch_loop 42
              \<lparr>analysisCount = 0, skippedCount = 0, performed = [], service = example_service\<rparr>
              [''alice'', ''bob''])) = []"
proof -
  have e: "GetUserByUsername
             (service \<lparr>analysisCount = 0, skippedCount = 0, performed = [],
                       service = example_service\<rparr>) ''alice'' = Some alice"
    and v: "HasValidCachedAnalysis
             (service \<lparr>analysisCount = 0, skippedCount = 0, performed = [],
                       service = example_service\<rparr>) (user_ID alice)"
    by (simp_all add: example_service_cached)
  note t = cached_user_is_notified_per_occurrence [OF e v, of "[''alice'', ''bob'']" 42]
  from t have 1: "batch_loop 42
     \<lparr>analysisCount = 0, skippedCount = 0, performed = [], service = example_service\<rparr>
     ([] @ [''alice'']) =
   (batch_loop 42
     \<lparr>analysisCount = 0, skippedCount = 0, performed = [], service = example_service\<rparr> [])
   \<lparr>skippedCount := skippedCount (batch_loop 42
       \<lparr>analysisCount = 0, skippedCount = 0, performed = [], service = example_service\<rparr> [])
       + 1,
    performed := performed (batch_loop 42
       \<lparr>analysisCount = 0, skippedCount = 0, performed = [], service = example_service\<rparr> [])
       @ (case GetCachedAnalysis
                 (service \<lparr>analysisCount = 0, skippedCount = 0, performed = [],
                           service = example_service\<rparr>) (user_ID alice) of
            None \<Rightarrow> []
          | Some r \<Rightarrow> [Go (Run_sendCachedBatchNotification ''alice'' (user_ID alice) r 42)])\<rparr>"
    by (elim conjE) (erule allE[of _ "[]"], erule allE[of _ "[''bob'']"], simp)
  from t obtain new where
    2: "performed (batch_loop 42
          \<lparr>analysisCount = 0, skippedCount = 0, performed = [], service = example_service\<rparr>
          [''alice'', ''bob'']) = new"
    and 3: "count_list new
              (Go (Run_sendCachedBatchNotification ''alice'' (user_ID alice) alice_cached 42)) = 1"
    by (elim conjE exE)
       (erule allE[of _ "user_ID alice"], erule allE[of _ alice_cached], erule allE[of _ 42],
        simp add: example_service_cached)
  from t have 4: "\<forall>taskID t.
      tasks (service (batch_loop 42
              \<lparr>analysisCount = 0, skippedCount = 0, performed = [], service = example_service\<rparr>
              [''alice'', ''bob''])) taskID = Some t \<and> task_Username t = ''alice'' \<longrightarrow>
      tasks example_service taskID = Some t"
    and 5: "analysisChannel (service (batch_loop 42
              \<lparr>analysisCount = 0, skippedCount = 0, performed = [], service = example_service\<rparr>
              [''alice'', ''bob''])) = analysisChannel example_service"
    by simp_all
  from 4 have 6: "\<not> (\<exists>taskID t.
      tasks (service (batch_loop 42
              \<lparr>analysisCount = 0, skippedCount = 0, performed = [], service = example_service\<rparr>
              [''alice'', ''bob''])) taskID = Some t \<and> task_Username t = ''alice'')"
    by (auto simp: example_service_ids)
  from 1 2 3 5 6 show ?thesis
    by (simp add: example_service_cached example_service_ids)
qed

text \<open>
  C4 with exactly one notification for a username does not hold. For alice, alice, bob
  two notifications are started for alice. And on the service whose store announces a
  cached analysis that it cannot read, alice is skipped without any notification.
\<close>

theorem cached_user_notified_twice_or_never:
  "count_list
     (performed (batch_loop 42
        \<lparr>analysisCount = 0, skippedCount = 0, performed = [], service = example_service\<rparr>
        [''alice'', ''alice'', ''bob'']))
     (Go (Run_sendCachedBatchNotification ''alice'' ''1001'' alice_cached 42)) = 2 \<and>
   GetUserByUsername service_cache_unreadable ''alice'' = Some alice \<and>
   HasValidCachedAnalysis service_cache_unreadable (user_ID alice) \<and>
   batch_loop 42
     \<lparr>analysisCount = 0, skippedCount = 0, performed = [],
      service = service_cache_unreadable\<rparr> [''alice''] =
   \<lparr>analysisCount = 0, skippedCount = 1, performed = [],
    service = service_cache_unreadable\<rparr>"
proof -
  have u: "GetUserByUsername service_cache_unreadable ''alice'' = Some alice"
    and v: "HasValidCachedAnalysis service_cache_unreadable (user_ID alice)"
    and g: "GetCachedAnalysis service_cache_unreadable (user_ID alice) = None"
    by (simp_all add: service_cache_unreadable_def example_service_def
        GetUserByUsername_def HasValidCachedAnalysis_def GetCachedAnalysis_def alice_def)
  have "batch_iteration 42
          \<lparr>analysisCount = 0, skippedCount = 0, performed = [],
           service = service_cache_unreadable\<rparr> ''alice'' =
        \<lparr>analysisCount = 0, skippedCount = 1, performed = [],
         service = service_cache_unreadable\<rparr>"
    using batch_iteration_cached
            [of "\<lparr>analysisCount = 0, skippedCount = 0, performed = [],
                  service = service_cache_unreadable\<rparr>" "''alice''" alice 42]
    by (simp add: u v g)
  with u v show ?thesis
    by (simp add: example_iteration_alice example_iteration_bob)
qed


end
